theory Spec2Isabelle
  imports Complex_Main "HOL-Library.Multiset" "HOL-Library.AList" "HOL-Library.Product_Lexorder"
begin

section \<open>The key-level analytics engine of analytics\_prototype\_v4\_comprehensive.py\<close>

text \<open>
  The model follows \<open>src/analysis/analytics_prototype_v4_comprehensive.py\<close>, class
  \<open>DeribitAnalyticsV4Comprehensive\<close>. Conventions:

  \<^item> Python floats are idealised as real numbers: rounding, overflow to infinity and NaN
    are not modelled. What raises is modelled: division by a zero float raises
    \<open>ZeroDivisionError\<close> and \<open>math.exp\<close> raises \<open>OverflowError\<close> when its result
    exceeds the largest float; both are branches of the model.
  \<^item> A Python \<open>dict\<close> is an association list in insertion order.
  \<^item> Strings are lists of 8-bit characters; only ASCII input is modelled.
  \<^item> Network retrieval is outside the model: every function takes what the HTTP layer
    returned. \<open>print\<close> calls are dropped.
  \<^item> \<open>datetime.now(timezone.utc)\<close> is a clock: a function from the number of earlier
    readings to the datetime read, threaded through every function that reads it.
\<close>

subsection \<open>Python built-ins\<close>

datatype error = ValueError | ZeroDivisionError | KeyError | OverflowError

definition bind_err :: "error + 'a \<Rightarrow> ('a \<Rightarrow> error + 'b) \<Rightarrow> error + 'b" where
  "bind_err r f = (case r of Inl e \<Rightarrow> Inl e | Inr v \<Rightarrow> f v)"

type_synonym ('k, 'v) dict = "('k \<times> 'v) list"

text \<open>\<open>d.get(k, dflt)\<close>, \<open>d[k] = v\<close> (an existing key keeps its place, a new one goes
  last), \<open>d.update(items)\<close> and \<open>dict(items)\<close>.\<close>

definition dict_get :: "('k, 'v) dict \<Rightarrow> 'k \<Rightarrow> 'v \<Rightarrow> 'v" where
  "dict_get d k dflt = (case map_of d k of None \<Rightarrow> dflt | Some v \<Rightarrow> v)"

definition dict_set :: "('k, 'v) dict \<Rightarrow> 'k \<Rightarrow> 'v \<Rightarrow> ('k, 'v) dict" where
  "dict_set d k v = AList.update k v d"

definition dict_update :: "('k, 'v) dict \<Rightarrow> ('k \<times> 'v) list \<Rightarrow> ('k, 'v) dict" where
  "dict_update d items = fold (\<lambda>(k, v) acc. dict_set acc k v) items d"

definition dict_of :: "('k \<times> 'v) list \<Rightarrow> ('k, 'v) dict" where
  "dict_of items = dict_update [] items"

text \<open>\<open>max(m, *xs, key=key)\<close> on a non-empty sequence: the first maximal element.\<close>

fun py_max_from :: "('a \<Rightarrow> 'b::linorder) \<Rightarrow> 'a \<Rightarrow> 'a list \<Rightarrow> 'a" where
  "py_max_from key m [] = m"
| "py_max_from key m (x # xs) = py_max_from key (if key m < key x then x else m) xs"

text \<open>\<open>list.sort(key=key)\<close> is stable; with \<open>reverse=True\<close> the list is reversed,
  sorted and reversed again, so equal keys keep their order too.\<close>

definition py_sort :: "('a \<Rightarrow> 'b::linorder) \<Rightarrow> 'a list \<Rightarrow> 'a list" where
  "py_sort key xs = sort_key key xs"

definition py_sort_reverse :: "('a \<Rightarrow> 'b::linorder) \<Rightarrow> 'a list \<Rightarrow> 'a list" where
  "py_sort_reverse key xs = rev (sort_key key (rev xs))"

text \<open>\<open>round(x)\<close> with one argument: to the nearest integer, halves to the even one.\<close>

definition py_round :: "real \<Rightarrow> int" where
  "py_round x =
     (let f = \<lfloor>x\<rfloor>; r = x - of_int f
      in if r < 1/2 then f else if 1/2 < r then f + 1 else if even f then f else f + 1)"

text \<open>\<open>math.exp(x)\<close>: the largest float is \<open>(2 - 2^-52) * 2^1023\<close>, about 1.8e308;
  a result beyond it (for \<open>x\<close> above about 709.78) raises \<open>OverflowError\<close>, a result
  too small for a float is 0.0 and raises nothing. In CPython the rounded result
  decides, so the threshold is exact up to one rounding; the proofs below use only
  that the call returns for \<open>x \<le> 600\<close> and raises for \<open>x \<ge> 1024\<close>.\<close>

definition dbl_max :: real where
  "dbl_max = (2 - 1 / 2 ^ 52) * 2 ^ 1023"

definition math_exp :: "real \<Rightarrow> error + real" where
  "math_exp x = (if dbl_max < exp x then Inl OverflowError else Inr (exp x))"

text \<open>\<open>np.mean\<close> of a non-empty list.\<close>

definition np_mean :: "real list \<Rightarrow> real" where
  "np_mean xs = sum_list xs / real (length xs)"

subsection \<open>Strings\<close>

text \<open>\<open>s.split(c)\<close> for a one-character separator.\<close>

fun split :: "char \<Rightarrow> string \<Rightarrow> string list" where
  "split c [] = [[]]"
| "split c (x # xs) =
     (if x = c then [] # split c xs
      else (case split c xs of [] \<Rightarrow> [[x]] | p # ps \<Rightarrow> (x # p) # ps))"

definition is_space :: "char \<Rightarrow> bool" where
  "is_space c = (c \<in> set [CHR '' '', CHR 0x09, CHR 0x0A, CHR 0x0B, CHR 0x0C, CHR 0x0D])"

definition is_digit :: "char \<Rightarrow> bool" where
  "is_digit c = (c \<in> set ''0123456789'')"

definition digit_val :: "char \<Rightarrow> nat" where
  "digit_val c =
     (case map_of (zip ''0123456789'' [0, 1, 2, 3, 4, 5, 6, 7, 8, 9]) c of
        None \<Rightarrow> 0 | Some v \<Rightarrow> v)"

definition digits_val :: "string \<Rightarrow> nat" where
  "digits_val s = foldl (\<lambda>n c. 10 * n + digit_val c) 0 s"

definition lower :: "string \<Rightarrow> string" where
  "lower s = map (\<lambda>c. case map_of (zip ''ABCDEFGHIJKLMNOPQRSTUVWXYZ''
                                        ''abcdefghijklmnopqrstuvwxyz'') c of
                        None \<Rightarrow> c | Some l \<Rightarrow> l) s"

text \<open>
  \<open>float(s)\<close> on an ASCII string, after CPython's \<open>PyFloat_FromString\<close>: single
  underscores between two digits are dropped, surrounding white space is stripped, and
  what remains must be an optional sign, a decimal mantissa with at least one digit and
  an optional exponent. Anything else raises \<open>ValueError\<close> (\<open>None\<close> here). The literals
  \<open>inf\<close>, \<open>infinity\<close> and \<open>nan\<close>, which \<open>float\<close> accepts as well, have no real value and
  are outside the model.
\<close>

fun drop_underscores :: "char \<Rightarrow> string \<Rightarrow> string option" where
  "drop_underscores prev [] = (if prev = CHR ''_'' then None else Some [])"
| "drop_underscores prev (c # cs) =
     (if c = CHR ''_'' then (if is_digit prev then drop_underscores c cs else None)
      else if prev = CHR ''_'' \<and> \<not> is_digit c then None
      else map_option ((#) c) (drop_underscores c cs))"

definition strip :: "string \<Rightarrow> string" where
  "strip s = rev (dropWhile is_space (rev (dropWhile is_space s)))"

definition split_sign :: "string \<Rightarrow> bool \<times> string" where
  "split_sign s =
     (case s of [] \<Rightarrow> (False, [])
      | c # r \<Rightarrow> if c = CHR ''-'' then (True, r) else if c = CHR ''+'' then (False, r)
                 else (False, s))"

definition parse_exponent :: "string \<Rightarrow> int option" where
  "parse_exponent s =
     (case s of [] \<Rightarrow> Some 0
      | c # r \<Rightarrow>
          if c = CHR ''e'' \<or> c = CHR ''E'' then
            (let (neg, ds) = split_sign r
             in if ds \<noteq> [] \<and> list_all is_digit ds
                then Some (if neg then - int (digits_val ds) else int (digits_val ds))
                else None)
          else None)"

definition py_float :: "string \<Rightarrow> real option" where
  "py_float s =
     (case drop_underscores (CHR 0x00) s of None \<Rightarrow> None
      | Some t \<Rightarrow>
         (let (neg, body) = split_sign (strip t);
              ip = takeWhile is_digit body;
              r1 = dropWhile is_digit body;
              (fp, r2) = (case r1 of [] \<Rightarrow> ([], [])
                          | c # r \<Rightarrow> if c = CHR ''.''
                                     then (takeWhile is_digit r, dropWhile is_digit r)
                                     else ([], r1));
              mant = real (digits_val ip) + real (digits_val fp) / 10 ^ length fp
          in if ip = [] \<and> fp = [] then None
             else (case parse_exponent r2 of None \<Rightarrow> None
                   | Some e \<Rightarrow>
                       (let v = (if e < 0 then mant / 10 ^ nat (- e) else mant * 10 ^ nat e)
                        in Some (if neg then - v else v)))))"

subsection \<open>Dates and times\<close>

text \<open>
  A \<open>datetime\<close> object in UTC, with the fields Python stores. \<open>toordinal\<close>,
  \<open>weekday\<close> and subtraction follow \<open>Lib/_pydatetime.py\<close>: day 1 is 0001-01-01, a
  Monday, and a difference of datetimes is an exact number of microseconds.
\<close>

record datetime =
  year :: int
  month :: int
  day :: int
  hour :: int
  minute :: int
  second :: int
  microsecond :: int

definition is_leap :: "int \<Rightarrow> bool" where
  "is_leap y = (y mod 4 = 0 \<and> (y mod 100 \<noteq> 0 \<or> y mod 400 = 0))"

definition days_in_month :: "int \<Rightarrow> int \<Rightarrow> int" where
  "days_in_month y m =
     (if m = 2 then (if is_leap y then 29 else 28)
      else if m = 4 \<or> m = 6 \<or> m = 9 \<or> m = 11 then 30 else 31)"

definition days_before_year :: "int \<Rightarrow> int" where
  "days_before_year y =
     (let p = y - 1 in p * 365 + p div 4 - p div 100 + p div 400)"

definition days_before_month :: "int \<Rightarrow> int \<Rightarrow> int" where
  "days_before_month y m =
     dict_get (zip [1, 2, 3, 4, 5, 6, 7, 8, 9, 10, 11, 12]
                   [0, 31, 59, 90, 120, 151, 181, 212, 243, 273, 304, 334]) m 0
     + (if m > 2 \<and> is_leap y then 1 else 0)"

definition toordinal :: "datetime \<Rightarrow> int" where
  "toordinal dt = days_before_year (year dt) + days_before_month (year dt) (month dt) + day dt"

definition weekday :: "datetime \<Rightarrow> int" where
  "weekday dt = (toordinal dt + 6) mod 7"

text \<open>The position of a datetime on the time line, in microseconds since the start of
  day 0; \<open>(a - b)\<close> is the difference of the positions, \<open>.total_seconds()\<close> that
  difference in seconds, \<open>.days\<close> its floor in days.\<close>

definition microseconds_of :: "datetime \<Rightarrow> int" where
  "microseconds_of dt =
     (((toordinal dt * 24 + hour dt) * 60 + minute dt) * 60 + second dt) * 1000000
       + microsecond dt"

definition total_seconds :: "datetime \<Rightarrow> datetime \<Rightarrow> real" where
  "total_seconds a b = real_of_int (microseconds_of a - microseconds_of b) / 1000000"

definition days_between :: "datetime \<Rightarrow> datetime \<Rightarrow> int" where
  "days_between a b = (microseconds_of a - microseconds_of b) div (86400 * 1000000)"

text \<open>\<open>dt.timestamp() * 1000\<close>: milliseconds since 1970-01-01, which is day 719163.\<close>

definition timestamp_ms :: "datetime \<Rightarrow> real" where
  "timestamp_ms dt =
     real_of_int (microseconds_of dt - 719163 * 86400 * 1000000) / 1000000 * 1000"

type_synonym clock = "nat \<Rightarrow> datetime"

text \<open>
  \<open>datetime.strptime(s, "%d%b%y")\<close> in the C locale. The format compiles to the regular
  expression \<open>(3[0-1]|[1-2]\d|0[1-9]|[1-9]| [1-9])(jan|...|dec)(\d\d)\<close>, matched without
  regard to case, and the whole string must be consumed. A month name starts with a
  letter, so the day is two digits between 01 and 31, or one digit 1-9 that a non-digit
  follows, or a blank and one such digit. Years 00-68 are 2000-2068, 69-99 are
  1969-1999. A day the month does not have raises \<open>ValueError\<close>, like every mismatch.
\<close>

definition month_abbr :: "string list" where
  "month_abbr = [''jan'', ''feb'', ''mar'', ''apr'', ''may'', ''jun'',
                 ''jul'', ''aug'', ''sep'', ''oct'', ''nov'', ''dec'']"

definition parse_day :: "string \<Rightarrow> (int \<times> string) option" where
  "parse_day s =
     (case s of [] \<Rightarrow> None
      | a # r \<Rightarrow>
         (case r of
            [] \<Rightarrow> if is_digit a \<and> a \<noteq> CHR ''0'' then Some (int (digit_val a), []) else None
          | b # r' \<Rightarrow>
              if is_digit a \<and> is_digit b then
                (let v = int (digits_val [a, b])
                 in if 1 \<le> v \<and> v \<le> 31 then Some (v, r') else None)
              else if is_digit a \<and> a \<noteq> CHR ''0'' then Some (int (digit_val a), r)
              else if a = CHR '' '' \<and> is_digit b \<and> b \<noteq> CHR ''0''
                   then Some (int (digit_val b), r')
              else None))"

definition parse_month :: "string \<Rightarrow> (int \<times> string) option" where
  "parse_month s =
     (let b = lower (take 3 s)
      in if b \<in> set month_abbr
         then Some (int (length (takeWhile (\<lambda>m. m \<noteq> b) month_abbr)) + 1, drop 3 s)
         else None)"

definition parse_year :: "string \<Rightarrow> int option" where
  "parse_year s =
     (if length s = 2 \<and> list_all is_digit s
      then (let v = int (digits_val s) in Some (if v \<le> 68 then v + 2000 else v + 1900))
      else None)"

definition strptime :: "string \<Rightarrow> datetime option" where
  "strptime s =
     (case parse_day s of None \<Rightarrow> None
      | Some (d, r) \<Rightarrow>
         (case parse_month r of None \<Rightarrow> None
          | Some (m, r') \<Rightarrow>
             (case parse_year r' of None \<Rightarrow> None
              | Some y \<Rightarrow>
                  if d \<le> days_in_month y m
                  then Some \<lparr>year = y, month = m, day = d, hour = 0, minute = 0,
                             second = 0, microsecond = 0\<rparr>
                  else None)))"

subsection \<open>Data model\<close>

text \<open>The dictionary \<open>parse_instrument_name\<close> returns; the empty dictionary it returns
  on failure is \<open>None\<close>. \<open>expiry_date\<close> is optional because the consumers read it with
  \<open>.get("expiry_date")\<close>.\<close>

record parsed_name =
  currency :: string
  expiry_date :: "datetime option"
  strike :: real
  option_type :: string
  is_call :: bool
  is_put :: bool

text \<open>An entry of the book summary as the API returns it (every key may be missing), and
  the instrument \<open>fetch_instruments_summary\<close> makes of it by \<open>instrument.update(parsed)\<close>.\<close>

record book_summary =
  summary_instrument_name :: "string option"
  summary_open_interest :: "real option"
  summary_volume :: "real option"
  summary_mark_iv :: "real option"

record instrument = parsed_name +
  instrument_name :: string
  open_interest :: real
  volume :: real
  mark_iv :: "real option"

text \<open>A trade of the tape. \<open>trade_instrument_name\<close> is the key \<open>instrument_name\<close>, read
  with the default \<open>""\<close>; \<open>amount\<close>, \<open>price\<close> and \<open>timestamp\<close> are read with the
  default 0.\<close>

record trade =
  trade_id :: "string option"
  trade_instrument_name :: string
  amount :: real
  price :: real
  direction :: string
  timestamp :: real

record KeyLevel =
  name :: string
  value' :: real
  distance_to_spot :: real
  confidence :: real

subsection \<open>Trade deduplication (lines 158-169 and 252-263)\<close>

definition add_unique_trades :: "(string, trade) dict \<Rightarrow> trade list \<Rightarrow> (string, trade) dict" where
  "add_unique_trades unique_trades chunk_trades =
     fold (\<lambda>tr acc.
             case trade_id tr of None \<Rightarrow> acc
             | Some tid \<Rightarrow>
                 if tid \<noteq> [] \<and> tid \<notin> set (map fst acc) then dict_set acc tid tr else acc)
          chunk_trades unique_trades"

definition unique_trades_of :: "trade list list \<Rightarrow> (string, trade) dict" where
  "unique_trades_of chunks = fold (\<lambda>chunk_trades acc. add_unique_trades acc chunk_trades) chunks []"

text \<open>Both fetchers take the trades of the chunks, in request order, and return
  \<open>list(unique_trades.values())\<close>. Before returning they print the time the trades
  cover; \<open>datetime.fromtimestamp\<close> there raises, outside any \<open>try\<close>, on a positive
  timestamp that no datetime can hold (beyond the year 9999). That printout is left out
  with the other \<open>print\<close> calls, so the definitions describe the fetchers on trade
  tapes whose timestamps are datable.\<close>

definition fetch_complete_options_trades :: "trade list list \<Rightarrow> trade list" where
  "fetch_complete_options_trades chunks = map snd (unique_trades_of chunks)"

definition fetch_complete_futures_trades :: "trade list list \<Rightarrow> trade list" where
  "fetch_complete_futures_trades chunks = map snd (unique_trades_of chunks)"

subsection \<open>Instrument names (lines 278-300) and the instrument summary (lines 197-207)\<close>

definition parse_instrument_name :: "string \<Rightarrow> parsed_name option" where
  "parse_instrument_name nm =
     (case split (CHR ''-'') nm of
        [ccy, expiry_str, strike_str, opt] \<Rightarrow>
          (case py_float strike_str of None \<Rightarrow> None
           | Some k \<Rightarrow>
              (case strptime expiry_str of None \<Rightarrow> None
               | Some expiry \<Rightarrow>
                   Some \<lparr>currency = ccy, expiry_date = Some expiry, strike = k,
                         option_type = opt, is_call = (opt = ''C''), is_put = (opt = ''P'')\<rparr>))
      | _ \<Rightarrow> None)"

definition enhance :: "book_summary \<Rightarrow> parsed_name \<Rightarrow> instrument" where
  "enhance s p =
     \<lparr>currency = currency p, expiry_date = expiry_date p, strike = strike p,
      option_type = option_type p, is_call = is_call p, is_put = is_put p,
      instrument_name = (case summary_instrument_name s of None \<Rightarrow> [] | Some n \<Rightarrow> n),
      open_interest = (case summary_open_interest s of None \<Rightarrow> 0 | Some v \<Rightarrow> v),
      volume = (case summary_volume s of None \<Rightarrow> 0 | Some v \<Rightarrow> v),
      mark_iv = summary_mark_iv s\<rparr>"

definition fetch_instruments_summary :: "book_summary list \<Rightarrow> instrument list" where
  "fetch_instruments_summary summaries =
     concat (map (\<lambda>s. case parse_instrument_name
                              (case summary_instrument_name s of None \<Rightarrow> [] | Some n \<Rightarrow> n) of
                         None \<Rightarrow> [] | Some p \<Rightarrow> [enhance s p])
                 summaries)"

subsection \<open>Timeframe classification (lines 302-350 and 417-431)\<close>

text \<open>Each predicate takes the clock reading it makes. The expiry passed in is never
  \<open>None\<close>: the caller has skipped such instruments. \<open>expiry_date.date() ==
  next_friday.date()\<close> compares calendar dates, which are equal exactly when their
  ordinals are; \<open>now + timedelta(days=n)\<close> is the date of ordinal \<open>toordinal now + n\<close>.\<close>

definition is_0dte :: "datetime \<Rightarrow> datetime \<Rightarrow> bool" where
  "is_0dte now expiry =
     (let expiry_utc_8am = expiry\<lparr>hour := 8, minute := 0, second := 0, microsecond := 0\<rparr>;
          time_diff = total_seconds expiry_utc_8am now
      in 0 < time_diff \<and> time_diff \<le> 24 * 3600)"

definition days_until_friday :: "datetime \<Rightarrow> int" where
  "days_until_friday now =
     (let d = (4 - weekday now) mod 7 in if d = 0 then 7 else d)"

definition is_current_weekly_monthly :: "datetime \<Rightarrow> datetime \<Rightarrow> bool" where
  "is_current_weekly_monthly now expiry =
     (toordinal expiry = toordinal now + days_until_friday now)"

definition is_1w_expiry :: "datetime \<Rightarrow> datetime \<Rightarrow> bool" where
  "is_1w_expiry now expiry =
     (let days_diff = days_between expiry now in 5 \<le> days_diff \<and> days_diff \<le> 12)"

definition is_1m_expiry :: "datetime \<Rightarrow> datetime \<Rightarrow> bool" where
  "is_1m_expiry now expiry =
     (let days_diff = days_between expiry now in 20 \<le> days_diff \<and> days_diff \<le> 40)"

datatype timeframe = DTE0 | Current | Week1 | Month1

text \<open>The \<open>if\<close>/\<open>elif\<close> chain of lines 422-431. A predicate is evaluated only when the
  ones before it were false, and reads the clock once.\<close>

definition classify_timeframe :: "clock \<Rightarrow> nat \<Rightarrow> datetime \<Rightarrow> timeframe \<times> nat" where
  "classify_timeframe clk t expiry =
     (if is_0dte (clk t) expiry then (DTE0, t + 1)
      else if is_current_weekly_monthly (clk (t + 1)) expiry then (Current, t + 2)
      else if is_1w_expiry (clk (t + 2)) expiry then (Week1, t + 3)
      else if is_1m_expiry (clk (t + 3)) expiry then (Month1, t + 4)
      else (Current, t + 4))"

record timeframe_groups =
  current_instruments :: "instrument list"
  dte0_instruments :: "instrument list"
  week1_instruments :: "instrument list"
  month1_instruments :: "instrument list"

definition append_to_group :: "timeframe \<Rightarrow> instrument \<Rightarrow> timeframe_groups \<Rightarrow> timeframe_groups" where
  "append_to_group b i g =
     (case b of
        DTE0 \<Rightarrow> g\<lparr>dte0_instruments := dte0_instruments g @ [i]\<rparr>
      | Current \<Rightarrow> g\<lparr>current_instruments := current_instruments g @ [i]\<rparr>
      | Week1 \<Rightarrow> g\<lparr>week1_instruments := week1_instruments g @ [i]\<rparr>
      | Month1 \<Rightarrow> g\<lparr>month1_instruments := month1_instruments g @ [i]\<rparr>)"

fun group_by_timeframe ::
  "clock \<Rightarrow> instrument list \<Rightarrow> timeframe_groups \<times> nat \<Rightarrow> timeframe_groups \<times> nat" where
  "group_by_timeframe clk [] st = st"
| "group_by_timeframe clk (i # rest) (g, t) =
     (case expiry_date i of
        None \<Rightarrow> group_by_timeframe clk rest (g, t)
      | Some expiry \<Rightarrow>
          (let (b, t') = classify_timeframe clk t expiry
           in group_by_timeframe clk rest (append_to_group b i g, t')))"

definition no_groups :: timeframe_groups where
  "no_groups = \<lparr>current_instruments = [], dte0_instruments = [],
                 week1_instruments = [], month1_instruments = []\<rparr>"

definition group_of :: "timeframe \<Rightarrow> timeframe_groups \<Rightarrow> instrument list" where
  "group_of b g =
     (case b of DTE0 \<Rightarrow> dte0_instruments g | Current \<Rightarrow> current_instruments g
      | Week1 \<Rightarrow> week1_instruments g | Month1 \<Rightarrow> month1_instruments g)"

text \<open>The instruments of the four groups together.\<close>

definition all_groups :: "timeframe_groups \<Rightarrow> instrument multiset" where
  "all_groups g = mset (dte0_instruments g) + mset (current_instruments g)
                   + mset (week1_instruments g) + mset (month1_instruments g)"

subsection \<open>Option levels (lines 404-587) and the gamma wall (lines 589-625)\<close>

definition get_avg_iv :: "real list \<Rightarrow> real \<Rightarrow> real" where
  "get_avg_iv iv_list fallback =
     (let valid_ivs = filter (\<lambda>iv. iv > 0) iv_list
      in if valid_ivs \<noteq> [] then np_mean valid_ivs else fallback)"

definition calculate_dynamic_band :: "real \<Rightarrow> real \<Rightarrow> real" where
  "calculate_dynamic_band iv_pct time_to_expiry_days =
     (let base_band = max 10 (min 50 (iv_pct * (3/10)));
          time_factor = (if time_to_expiry_days \<le> 1 then 1
                         else if time_to_expiry_days \<le> 7 then 12/10
                         else min 2 (1 + (time_to_expiry_days - 7) / 20))
      in base_band * time_factor)"

text \<open>The division by \<open>spot_price\<close> in line 460 is evaluated for the first instrument
  of a non-empty list.\<close>

definition calculate_atm_iv :: "real \<Rightarrow> instrument list \<Rightarrow> error + real" where
  "calculate_atm_iv spot_price instruments_list =
     (if instruments_list = [] then Inr 50
      else if spot_price = 0 then Inl ZeroDivisionError
      else
        (let near = filter (\<lambda>inst. \<bar>strike inst - spot_price\<bar> / spot_price < 5/100)
                           instruments_list;
             atm_ivs = filter (\<lambda>iv. iv > 0)
                         (map (\<lambda>inst. case mark_iv inst of None \<Rightarrow> 0 | Some iv \<Rightarrow> iv) near)
         in Inr (get_avg_iv atm_ivs 50)))"

definition filter_call_strikes :: "real \<Rightarrow> (real, real) dict \<Rightarrow> real \<Rightarrow> (real, real) dict" where
  "filter_call_strikes spot_price strikes_dict band =
     (let filtered_items =
            filter (\<lambda>(k, oi). k > spot_price \<and> k \<le> spot_price * (1 + band / 100)) strikes_dict
      in dict_of (take 10 (py_sort fst filtered_items)))"

definition filter_put_strikes :: "real \<Rightarrow> (real, real) dict \<Rightarrow> real \<Rightarrow> (real, real) dict" where
  "filter_put_strikes spot_price strikes_dict band =
     (let filtered_items =
            filter (\<lambda>(k, oi). k < spot_price \<and> k \<ge> spot_price * (1 - band / 100)) strikes_dict
      in dict_of (take 10 (py_sort_reverse fst filtered_items)))"

text \<open>The loop of lines 512-522: open interest per strike, calls and puts apart.\<close>

definition aggregate_open_interest ::
  "instrument list \<Rightarrow> (real, real) dict \<times> (real, real) dict" where
  "aggregate_open_interest instruments_list =
     fold (\<lambda>inst (call_strikes, put_strikes).
             let k = strike inst; oi = open_interest inst
             in if oi \<le> 0 then (call_strikes, put_strikes)
                else if is_call inst
                     then (dict_set call_strikes k (dict_get call_strikes k 0 + oi), put_strikes)
                     else (call_strikes, dict_set put_strikes k (dict_get put_strikes k 0 + oi)))
          instruments_list ([], [])"

definition level_name :: "string \<Rightarrow> string \<Rightarrow> string" where
  "level_name base timeframe_name =
     base @ (if timeframe_name \<noteq> [] then '' '' @ timeframe_name else [])"

definition process_timeframe ::
  "real \<Rightarrow> instrument list \<Rightarrow> string \<Rightarrow> real \<Rightarrow> (string, real) dict \<times> nat \<times> nat \<times> real \<times> real" where
  "process_timeframe spot_price instruments_list timeframe_name band =
     (let (call_strikes, put_strikes) = aggregate_open_interest instruments_list;
          filtered_calls = filter_call_strikes spot_price call_strikes band;
          filtered_puts = filter_put_strikes spot_price put_strikes band;
          levels = [];
          levels = (case filtered_calls of [] \<Rightarrow> levels
                    | x # xs \<Rightarrow> dict_set levels (level_name ''Call Resistance'' timeframe_name)
                                         (fst (py_max_from snd x xs)));
          levels = (case filtered_puts of [] \<Rightarrow> levels
                    | x # xs \<Rightarrow> dict_set levels (level_name ''Put Support'' timeframe_name)
                                         (fst (py_max_from snd x xs)))
      in (levels, length filtered_calls, length filtered_puts,
          sum_list (map snd filtered_calls), sum_list (map snd filtered_puts)))"

definition calc_pc_ratio :: "real \<Rightarrow> real \<Rightarrow> real" where
  "calc_pc_ratio call_oi put_oi = (if call_oi > 0 then put_oi / call_oi else 0)"

text \<open>Lines 604-610: what one instrument adds to the gamma of its strike.\<close>

definition gamma_contribution :: "real \<Rightarrow> instrument \<Rightarrow> real" where
  "gamma_contribution spot_price inst =
     (let moneyness = \<bar>spot_price - strike inst\<bar> / spot_price;
          gamma_weight = max (1/10) (1 - moneyness * 5);
          c = gamma_weight * open_interest inst
      in if \<not> is_call inst then c * (- 1) else c)"

definition accumulate_gamma :: "real \<Rightarrow> instrument list \<Rightarrow> (real, real) dict" where
  "accumulate_gamma spot_price instruments =
     fold (\<lambda>inst strike_gamma.
             if open_interest inst \<le> 0 then strike_gamma
             else dict_set strike_gamma (strike inst)
                    (dict_get strike_gamma (strike inst) 0 + gamma_contribution spot_price inst))
          instruments []"

text \<open>The division by \<open>spot_price\<close> in line 604 is evaluated for the first instrument
  with positive open interest.\<close>

definition calculate_gamma_wall :: "instrument list \<Rightarrow> real \<Rightarrow> error + (string, real) dict" where
  "calculate_gamma_wall instruments spot_price =
     (if instruments = [] then Inr []
      else if spot_price = 0 \<and> list_ex (\<lambda>inst. \<not> open_interest inst \<le> 0) instruments
      then Inl ZeroDivisionError
      else
        (case accumulate_gamma spot_price instruments of
           [] \<Rightarrow> Inr []
         | x # xs \<Rightarrow>
             (let gamma_wall_strike = fst (py_max_from (\<lambda>item. \<bar>snd item\<bar>) x xs)
              in case map_of (x # xs) gamma_wall_strike of
                   None \<Rightarrow> Inl KeyError
                 | Some gamma_wall_value \<Rightarrow>
                     (let gamma_type = (if gamma_wall_value < 0 then ''Short Gamma''
                                        else ''Long Gamma'')
                      in Inr [(''Gamma Wall ('' @ gamma_type @ '')'', gamma_wall_strike)]))))"

record option_analysis =
  levels :: "(string, real) dict"
  put_call_ratios :: "(string, real) dict"
  iv_data :: "(string, real) dict"

text \<open>\<open>calculate_option_levels\<close>. The empty dictionary returned for no instruments is
  \<open>None\<close>.\<close>

definition calculate_option_levels ::
  "clock \<Rightarrow> nat \<Rightarrow> instrument list \<Rightarrow> real \<Rightarrow> error + (option_analysis option \<times> nat)" where
  "calculate_option_levels clk t instruments spot_price =
     (if instruments = [] then Inr (None, t)
      else
        (let (g, t') = group_by_timeframe clk instruments (no_groups, t)
         in bind_err (calculate_atm_iv spot_price (current_instruments g)) (\<lambda>current_iv.
            bind_err (calculate_atm_iv spot_price (dte0_instruments g)) (\<lambda>dte0_iv.
            bind_err (calculate_atm_iv spot_price (week1_instruments g)) (\<lambda>week1_iv.
            bind_err (calculate_atm_iv spot_price (month1_instruments g)) (\<lambda>month1_iv.
              (let current_band = calculate_dynamic_band current_iv 7;
                   dte0_band = calculate_dynamic_band dte0_iv (1/10);
                   week1_band = calculate_dynamic_band week1_iv 7;
                   month1_band = calculate_dynamic_band month1_iv 30;
                   (current_levels, current_calls, current_puts, current_call_oi, current_put_oi) =
                      process_timeframe spot_price (current_instruments g) [] current_band;
                   all_levels = dict_update [] current_levels;
                   pc_ratios = dict_set [] ''Current'' (calc_pc_ratio current_call_oi current_put_oi);
                   (dte0_levels, dte0_calls, dte0_puts, dte0_call_oi, dte0_put_oi) =
                      process_timeframe spot_price (dte0_instruments g) ''0DTE'' dte0_band;
                   all_levels = dict_update all_levels dte0_levels;
                   pc_ratios = dict_set pc_ratios ''0DTE'' (calc_pc_ratio dte0_call_oi dte0_put_oi);
                   (week1_levels, week1_calls, week1_puts, week1_call_oi, week1_put_oi) =
                      process_timeframe spot_price (week1_instruments g) ''1W'' week1_band;
                   all_levels = dict_update all_levels week1_levels;
                   pc_ratios = dict_set pc_ratios ''1W'' (calc_pc_ratio week1_call_oi week1_put_oi);
                   (month1_levels, month1_calls, month1_puts, month1_call_oi, month1_put_oi) =
                      process_timeframe spot_price (month1_instruments g) ''1M'' month1_band;
                   all_levels = dict_update all_levels month1_levels;
                   pc_ratios = dict_set pc_ratios ''1M'' (calc_pc_ratio month1_call_oi month1_put_oi)
               in bind_err (calculate_gamma_wall (dte0_instruments g) spot_price) (\<lambda>gamma_wall_data.
                    Inr (Some \<lparr>levels = dict_update all_levels gamma_wall_data,
                               put_call_ratios = pc_ratios,
                               iv_data = [(''current'', current_iv), (''dte0'', dte0_iv),
                                          (''week1'', week1_iv), (''month1'', month1_iv)]\<rparr>,
                         t')))))))))"

subsection \<open>Daily range and volume profile (lines 370-402)\<close>

record stats_24h =
  high_24h :: real
  low_24h :: real

definition calculate_1d_levels :: "stats_24h \<Rightarrow> real \<times> real" where
  "calculate_1d_levels stats = (high_24h stats, low_24h stats)"

record volume_level =
  level :: string
  level_price :: real
  level_volume :: real

definition price_bucket :: "real \<Rightarrow> real" where
  "price_bucket p =
     (if p > 1000 then real_of_int (py_round (p / 10) * 10)
      else real_of_int (py_round (p * 10)) / 10)"

definition calculate_volume_profile_levels :: "trade list \<Rightarrow> real \<Rightarrow> string \<Rightarrow> volume_level list" where
  "calculate_volume_profile_levels trades spot_price ccy =
     (if trades = [] then []
      else
        (let price_levels =
               fold (\<lambda>tr acc.
                       if price tr \<le> 0 \<or> amount tr \<le> 0 then acc
                       else (let b = price_bucket (price tr);
                                 acc' = (if b \<notin> set (map fst acc) then dict_set acc b 0 else acc)
                             in dict_set acc' b (dict_get acc' b 0 + amount tr)))
                    trades []
         in case price_levels of
              [] \<Rightarrow> []
            | x # xs \<Rightarrow>
                (let hvl_price = fst (py_max_from snd x xs)
                 in [\<lparr>level = ''HVL'', level_price = hvl_price,
                      level_volume = dict_get price_levels hvl_price 0\<rparr>])))"

subsection \<open>Options flow (lines 356-368 and 627-744)\<close>

definition calculate_delta_simple :: "real \<Rightarrow> real \<Rightarrow> real \<Rightarrow> bool \<Rightarrow> error + real" where
  "calculate_delta_simple spot_price k time_to_expiry call =
     (if time_to_expiry \<le> 0
      then Inr (if (call \<and> spot_price > k) \<or> (\<not> call \<and> spot_price < k) then 1 else 0)
      else if k = 0 then Inl ZeroDivisionError
      else
        (let moneyness = spot_price / k
         in Inr (if call then max (5/100) (min (95/100) (1/2 + (4/10) * (moneyness - 1)))
                 else max (5/100) (min (95/100) (1/2 - (4/10) * (moneyness - 1))))))"

record strike_flow_data =
  total_volume :: real
  net_flow :: real
  call_volume :: real
  put_volume :: real
  weighted_flow :: real

definition no_flow :: strike_flow_data where
  "no_flow = \<lparr>total_volume = 0, net_flow = 0, call_volume = 0, put_volume = 0,
              weighted_flow = 0\<rparr>"

text \<open>
  The body of the loop of lines 637-694 on the state \<open>(strike_flow, total_volume, t)\<close>.
  Every exception is caught and the loop goes on: \<open>float\<close> failing on the strike leaves
  the state as it was; \<open>math.exp\<close> overflowing in line 664 (a trade stamped more than
  about 8517 hours after the clock reading) and the division by a zero strike in
  \<open>calculate_delta_simple\<close> both come after \<open>total_volume\<close> has grown and the clock has
  been read, so such a trade counts in the total and in no strike.
\<close>

definition flow_step ::
  "real \<Rightarrow> clock \<Rightarrow> trade \<Rightarrow> (real, strike_flow_data) dict \<times> real \<times> nat
     \<Rightarrow> (real, strike_flow_data) dict \<times> real \<times> nat" where
  "flow_step spot_price clk tr st =
     (case st of (strike_flow, total_vol, t) \<Rightarrow>
       (let instr = trade_instrument_name tr
        in if instr = [] then st
           else
             (let parts = split (CHR ''-'') instr
              in if length parts < 4 then st
                 else
                   (case py_float (parts ! 2) of
                      None \<Rightarrow> st
                    | Some k \<Rightarrow>
                        (let opt = parts ! 3
                         in if amount tr \<le> 0 \<or> price tr \<le> 0 then st
                            else
                              (let notional = amount tr * price tr * spot_price;
                                   total_vol' = total_vol + notional;
                                   now_timestamp = timestamp_ms (clk t);
                                   hours_ago = (now_timestamp - timestamp tr) / (1000 * 60 * 60);
                                   call = (opt = ''C'')
                               in case math_exp (- hours_ago / 12) of
                                    Inl e \<Rightarrow> (strike_flow, total_vol', t + 1)
                                  | Inr time_weight \<Rightarrow>
                                     (case calculate_delta_simple spot_price k (1/365) call of
                                        Inl e \<Rightarrow> (strike_flow, total_vol', t + 1)
                                      | Inr delta \<Rightarrow>
                                          (let delta_exposure = notional * delta;
                                               flow_direction =
                                                 (if direction tr = ''buy'' then 1 else - 1);
                                               data = dict_get strike_flow k no_flow;
                                               data = data\<lparr>total_volume := total_volume data + notional,
                                                           net_flow := net_flow data
                                                              + delta_exposure * flow_direction,
                                                           weighted_flow := weighted_flow data
                                                              + delta_exposure * flow_direction
                                                                * time_weight\<rparr>;
                                               data = (if call
                                                       then data\<lparr>call_volume :=
                                                                    call_volume data + notional\<rparr>
                                                       else data\<lparr>put_volume :=
                                                                    put_volume data + notional\<rparr>)
                                           in (dict_set strike_flow k data, total_vol', t + 1)))))))))"

text \<open>The numbered blocks of lines 704-742; each adds one level to the dictionary
  \<open>levels\<close>, here \<open>lvls\<close>.\<close>

definition add_max_pain_flow ::
  "(real, strike_flow_data) dict \<Rightarrow> (string, real) dict \<Rightarrow> (string, real) dict" where
  "add_max_pain_flow strike_flow lvls =
     (let balanced_strikes =
            map (\<lambda>(k, data). (k, min (call_volume data) (put_volume data)
                                   / max (call_volume data) (put_volume data),
                                total_volume data))
                (filter (\<lambda>(k, data). call_volume data > 0 \<and> put_volume data > 0) strike_flow)
      in case py_sort_reverse (\<lambda>b. (fst (snd b), snd (snd b))) balanced_strikes of
           [] \<Rightarrow> lvls
         | b # bs \<Rightarrow> dict_set lvls ''Max Pain Flow'' (fst b))"

definition add_call_flow_resistance ::
  "(real, strike_flow_data) dict \<Rightarrow> real \<Rightarrow> (string, real) dict \<Rightarrow> (string, real) dict" where
  "add_call_flow_resistance strike_flow spot_price lvls =
     (let call_resistance =
            map (\<lambda>(k, data). (k, weighted_flow data))
                (filter (\<lambda>(k, data). k > spot_price \<and> call_volume data > put_volume data)
                        strike_flow)
      in case py_sort_reverse snd call_resistance of
           [] \<Rightarrow> lvls
         | c # cs \<Rightarrow> dict_set lvls ''Call Flow Resistance'' (fst c))"

definition add_put_flow_support ::
  "(real, strike_flow_data) dict \<Rightarrow> real \<Rightarrow> (string, real) dict \<Rightarrow> (string, real) dict" where
  "add_put_flow_support strike_flow spot_price lvls =
     (let put_support =
            map (\<lambda>(k, data). (k, \<bar>weighted_flow data\<bar>))
                (filter (\<lambda>(k, data). k < spot_price \<and> put_volume data > call_volume data)
                        strike_flow)
      in case py_sort_reverse snd put_support of
           [] \<Rightarrow> lvls
         | p # ps \<Rightarrow> dict_set lvls ''Put Flow Support'' (fst p))"

definition add_vwas ::
  "(real, strike_flow_data) dict \<Rightarrow> real \<Rightarrow> (string, real) dict \<Rightarrow> (string, real) dict" where
  "add_vwas strike_flow total_vol lvls =
     (if total_vol > 0
      then dict_set lvls ''VWAS''
             (sum_list (map (\<lambda>(k, data). k * total_volume data) strike_flow) / total_vol)
      else lvls)"

definition flow_levels_of :: "(real, strike_flow_data) dict \<Rightarrow> real \<Rightarrow> real \<Rightarrow> (string, real) dict" where
  "flow_levels_of strike_flow total_vol spot_price =
     (case strike_flow of
        [] \<Rightarrow> []
      | x # xs \<Rightarrow>
          (let hvs_strike = fst (py_max_from (\<lambda>item. total_volume (snd item)) x xs);
               levels = dict_set [] ''HVS'' hvs_strike;
               levels = add_max_pain_flow strike_flow levels;
               levels = add_call_flow_resistance strike_flow spot_price levels;
               levels = add_put_flow_support strike_flow spot_price levels
           in add_vwas strike_flow total_vol levels))"

definition analyze_complete_options_flow ::
  "clock \<Rightarrow> nat \<Rightarrow> trade list \<Rightarrow> real \<Rightarrow> (string, real) dict \<times> nat" where
  "analyze_complete_options_flow clk t trades spot_price =
     (if trades = [] then ([], t)
      else
        (case fold (flow_step spot_price clk) trades ([], 0, t) of
           (strike_flow, total_vol, t') \<Rightarrow> (flow_levels_of strike_flow total_vol spot_price, t')))"

subsection \<open>Level composition (lines 746-839)\<close>

definition calculate_distance_to_spot :: "real \<Rightarrow> real \<Rightarrow> real" where
  "calculate_distance_to_spot lvl spot_price = ((lvl - spot_price) / spot_price) * 100"

definition calculate_confidence :: "real \<Rightarrow> real \<Rightarrow> real" where
  "calculate_confidence base_confidence distance_pct =
     (let distance_factor = max (1/10) (1 - \<bar>distance_pct\<bar> / 100)
      in min 1 (base_confidence * distance_factor))"

definition confidence_map :: "(string, real) dict" where
  "confidence_map =
    [(''1D Max'', 8/10), (''1D Min'', 7/10), (''HVL'', 6/10),
     (''Call Resistance'', 5/10), (''Put Support'', 4/10),
     (''Call Resistance 0DTE'', 7/10), (''Put Support 0DTE'', 8/10),
     (''Call Resistance 1W'', 5/10), (''Put Support 1W'', 4/10),
     (''Call Resistance 1M'', 4/10), (''Put Support 1M'', 1/10),
     (''Gamma Wall (Short Gamma)'', 6/10), (''Gamma Wall (Long Gamma)'', 6/10),
     (''HVS'', 5/10), (''Max Pain Flow'', 4/10),
     (''Call Flow Resistance'', 4/10), (''Put Flow Support'', 4/10),
     (''VWAS'', 3/10)]"

text \<open>Lines 812-826: the key levels of a merged level map.\<close>

definition make_key_level :: "real \<Rightarrow> string \<times> real \<Rightarrow> KeyLevel" where
  "make_key_level spot_price item =
     (let lname = fst item; level_price = snd item;
          distance = calculate_distance_to_spot level_price spot_price;
          base_conf = dict_get confidence_map lname (3/10)
      in \<lparr>name = lname, value' = level_price, distance_to_spot = distance,
          confidence = calculate_confidence base_conf distance\<rparr>)"

definition key_levels_of :: "(string, real) dict \<Rightarrow> real \<Rightarrow> KeyLevel list" where
  "key_levels_of all_levels spot_price =
     py_sort (\<lambda>x. \<bar>distance_to_spot x\<bar>)
       (map (make_key_level spot_price)
          (filter (\<lambda>item. snd item \<noteq> 0 \<and> snd item > 0) all_levels))"

text \<open>What the retrieval layer hands to \<open>generate_key_levels\<close>: the index price (absent
  when the request returned no result), the 24h statistics, the book summary and the
  chunks of the two trade tapes.\<close>

record fetched =
  index_price :: "real option"
  stats :: stats_24h
  summaries :: "book_summary list"
  futures_chunks :: "trade list list"
  options_chunks :: "trade list list"

record metadata =
  meta_currency :: string
  meta_spot_price :: real
  meta_put_call_ratios :: "(string, real) dict"
  meta_iv_data :: "(string, real) dict"
  instruments_analyzed :: nat
  futures_trades_count :: nat
  options_trades_count :: nat

definition fetch_index_price :: "fetched \<Rightarrow> real" where
  "fetch_index_price f = (case index_price f of None \<Rightarrow> 0 | Some p \<Rightarrow> p)"

definition merge_levels ::
  "real \<Rightarrow> real \<Rightarrow> volume_level list \<Rightarrow> option_analysis option \<Rightarrow> (string, real) dict
     \<Rightarrow> (string, real) dict" where
  "merge_levels max_24h min_24h hvl_levels analysis flow_levels =
     (let all_levels = [];
          all_levels = (if max_24h > 0 then dict_set all_levels ''1D Max'' max_24h else all_levels);
          all_levels = (if min_24h > 0 then dict_set all_levels ''1D Min'' min_24h else all_levels);
          all_levels = fold (\<lambda>hvl acc. dict_set acc (level hvl) (level_price hvl)) hvl_levels all_levels;
          all_levels = dict_update all_levels
                         (case analysis of None \<Rightarrow> [] | Some a \<Rightarrow> levels a)
      in dict_update all_levels flow_levels)"

definition generate_key_levels ::
  "clock \<Rightarrow> nat \<Rightarrow> string \<Rightarrow> fetched \<Rightarrow> error + ((KeyLevel list \<times> metadata) \<times> nat)" where
  "generate_key_levels clk t ccy f =
     (let spot_price = fetch_index_price f
      in if spot_price \<le> 0 then Inl ValueError
         else
           (let instruments = fetch_instruments_summary (summaries f);
                futures_trades = fetch_complete_futures_trades (futures_chunks f);
                options_trades = fetch_complete_options_trades (options_chunks f);
                (max_24h, min_24h) = calculate_1d_levels (stats f);
                hvl_levels = calculate_volume_profile_levels futures_trades spot_price ccy
            in bind_err (calculate_option_levels clk t instruments spot_price) (\<lambda>(analysis, t1).
                 (let (flow_levels, t2) = analyze_complete_options_flow clk t1 options_trades spot_price;
                      all_levels = merge_levels max_24h min_24h hvl_levels analysis flow_levels;
                      key_levels = key_levels_of all_levels spot_price
                  in Inr ((key_levels,
                           \<lparr>meta_currency = ccy, meta_spot_price = spot_price,
                            meta_put_call_ratios =
                              (case analysis of None \<Rightarrow> [] | Some a \<Rightarrow> put_call_ratios a),
                            meta_iv_data = (case analysis of None \<Rightarrow> [] | Some a \<Rightarrow> iv_data a),
                            instruments_analyzed = length instruments,
                            futures_trades_count = length futures_trades,
                            options_trades_count = length options_trades\<rparr>),
                          t2)))))"

subsection \<open>Notions of the specification\<close>

text \<open>The net gamma contribution of a strike in the words of the specification (section
  4.5): every instrument contributes \<open>max(0.1, 1 - 5 * |spot - strike| / spot) * oi\<close>,
  negated for puts.\<close>

definition spec_gamma_contribution :: "real \<Rightarrow> instrument \<Rightarrow> real" where
  "spec_gamma_contribution spot inst =
     (let c = max (1/10) (1 - 5 * \<bar>spot - strike inst\<bar> / spot) * open_interest inst
      in if is_put inst then - c else c)"

definition spec_net_gamma :: "real \<Rightarrow> instrument list \<Rightarrow> real \<Rightarrow> real" where
  "spec_net_gamma spot instruments k =
     sum_list (map (spec_gamma_contribution spot) (filter (\<lambda>inst. strike inst = k) instruments))"

text \<open>The volume-weighted average strike in the words of the specification (section
  4.6). A trade counts when the loop of \<open>analyze_complete_options_flow\<close> takes it: its
  instrument name has at least four dash-separated parts, the third is a number, and
  amount and price are positive.\<close>

definition flow_strike :: "trade \<Rightarrow> real option" where
  "flow_strike tr =
     (let parts = split (CHR ''-'') (trade_instrument_name tr)
      in if trade_instrument_name tr = [] \<or> length parts < 4 then None
         else py_float (parts ! 2))"

definition valid_flow_trade :: "trade \<Rightarrow> bool" where
  "valid_flow_trade tr = (flow_strike tr \<noteq> None \<and> 0 < amount tr \<and> 0 < price tr)"

definition strike_of :: "trade \<Rightarrow> real" where
  "strike_of tr = (case flow_strike tr of None \<Rightarrow> 0 | Some k \<Rightarrow> k)"

definition trade_notional :: "real \<Rightarrow> trade \<Rightarrow> real" where
  "trade_notional spot tr = amount tr * price tr * spot"

definition spec_total_notional :: "real \<Rightarrow> trade list \<Rightarrow> real" where
  "spec_total_notional spot trades =
     sum_list (map (trade_notional spot) (filter valid_flow_trade trades))"

definition spec_strike_notional :: "real \<Rightarrow> trade list \<Rightarrow> real \<Rightarrow> real" where
  "spec_strike_notional spot trades k =
     sum_list (map (trade_notional spot)
       (filter (\<lambda>tr. valid_flow_trade tr \<and> strike_of tr = k) trades))"

definition spec_vwas :: "real \<Rightarrow> trade list \<Rightarrow> real" where
  "spec_vwas spot trades =
     sum_list (map (\<lambda>k. k * spec_strike_notional spot trades k)
                   (remdups (map strike_of (filter valid_flow_trade trades))))
       / spec_total_notional spot trades"

text \<open>
  Modelled from the spec: the repository has no function that builds an instrument name
  from parsed fields. \<open>instrument_name_of\<close> writes the wire form
  \<open>CCY-DDMMMYY-STRIKE-{C|P}\<close> of section 3 in its canonical spelling: the day with two
  digits, the month as its upper-case English abbreviation, the year with two digits and
  the strike as a decimal integer without sign or leading zeros. \<open>reconstruct\<close>
  builds the name from the fields \<open>parse_instrument_name\<close> returns.
\<close>

definition digit_char :: "nat \<Rightarrow> char" where
  "digit_char n = ''0123456789'' ! (n mod 10)"

function decimal :: "nat \<Rightarrow> string" where
  "decimal n = (if n < 10 then [digit_char n] else decimal (n div 10) @ [digit_char (n mod 10)])"
  by pat_completeness auto
termination
  by (relation "measure (\<lambda>n. n)") auto

declare decimal.simps [simp del]

definition two_digits :: "nat \<Rightarrow> string" where
  "two_digits n = [digit_char (n div 10), digit_char (n mod 10)]"

definition month_names :: "string list" where
  "month_names = [''JAN'', ''FEB'', ''MAR'', ''APR'', ''MAY'', ''JUN'',
                  ''JUL'', ''AUG'', ''SEP'', ''OCT'', ''NOV'', ''DEC'']"

definition instrument_name_of :: "string \<Rightarrow> int \<Rightarrow> int \<Rightarrow> int \<Rightarrow> nat \<Rightarrow> string \<Rightarrow> string" where
  "instrument_name_of ccy y m d k opt =
     ccy @ ''-'' @ two_digits (nat d) @ month_names ! nat (m - 1) @ two_digits (nat (y mod 100))
       @ ''-'' @ decimal k @ ''-'' @ opt"

definition canonical_fields :: "string \<Rightarrow> int \<Rightarrow> int \<Rightarrow> int \<Rightarrow> nat \<Rightarrow> string \<Rightarrow> bool" where
  "canonical_fields ccy y m d k opt =
     (CHR ''-'' \<notin> set ccy \<and> 1969 \<le> y \<and> y \<le> 2068 \<and> 1 \<le> m \<and> m \<le> 12
      \<and> 1 \<le> d \<and> d \<le> days_in_month y m \<and> k < 10 ^ 15 \<and> (opt = ''C'' \<or> opt = ''P''))"

definition reconstruct :: "parsed_name \<Rightarrow> string option" where
  "reconstruct p =
     (case expiry_date p of None \<Rightarrow> None
      | Some e \<Rightarrow>
          Some (instrument_name_of (currency p) (year e) (month e) (day e)
                  (nat \<lfloor>strike p\<rfloor>) (option_type p)))"

subsection \<open>Sample data\<close>

definition jan25 :: "int \<Rightarrow> int \<Rightarrow> datetime" where
  "jan25 d h = \<lparr>year = 2025, month = 1, day = d, hour = h, minute = 0, second = 0,
                 microsecond = 0\<rparr>"

definition sample_call :: "datetime option \<Rightarrow> real \<Rightarrow> real \<Rightarrow> instrument" where
  "sample_call expiry k oi =
     \<lparr>currency = ''BTC'', expiry_date = expiry, strike = k, option_type = ''C'',
      is_call = True, is_put = False, instrument_name = ''BTC'', open_interest = oi,
      volume = 0, mark_iv = None\<rparr>"

definition sample_trade :: "string \<Rightarrow> real \<Rightarrow> real \<Rightarrow> string \<Rightarrow> trade" where
  "sample_trade nm a p dir =
     \<lparr>trade_id = Some nm, trade_instrument_name = nm, amount = a, price = p,
      direction = dir, timestamp = 0\<rparr>"

section \<open>Properties\<close>

subsection \<open>Dictionaries, maxima and sorting\<close>

lemma dict_set_fresh: "k \<notin> fst ` set d \<Longrightarrow> dict_set d k v = d @ [(k, v)]"
  unfolding dict_set_def by (induction d) auto

lemma dict_update_distinct:
  "distinct (map fst (d @ items)) \<Longrightarrow> dict_update d items = d @ items"
proof (induction items arbitrary: d)
  case Nil
  then show ?case by (simp add: dict_update_def)
next
  case (Cons a items)
  obtain k v where a: "a = (k, v)" by (cases a)
  from Cons.prems have fresh: "k \<notin> fst ` set d" by (auto simp: a)
  from Cons.prems have "distinct (map fst ((d @ [(k, v)]) @ items))" by (simp add: a)
  from Cons.IH [OF this] show ?case
    using fresh by (simp add: dict_update_def a dict_set_fresh)
qed

lemma dict_of_distinct: "distinct (map fst items) \<Longrightarrow> dict_of items = items"
  using dict_update_distinct [of "[]" items] by (simp add: dict_of_def)

lemma distinct_map_sort_key: "distinct (map f (sort_key g xs)) = distinct (map f xs)"
  by (rule mset_eq_imp_distinct_iff) (simp only: mset_map mset_sort)

lemma distinct_take_sort_filter:
  assumes "distinct (map fst d)"
  shows "distinct (map fst (take n (sort_key fst (filter P d))))"
proof -
  have "distinct (map fst (filter P d))"
    using assms by (rule distinct_map_filter)
  then have "distinct (map fst (sort_key fst (filter P d)))"
    by (simp only: distinct_map_sort_key)
  then show ?thesis
    by (simp add: take_map [symmetric] distinct_take)
qed

subsection \<open>Level composition\<close>

lemma make_key_level_sel:
  "name (make_key_level s it) = fst it" "value' (make_key_level s it) = snd it"
  "distance_to_spot (make_key_level s it) = (snd it - s) / s * 100"
  by (simp_all add: make_key_level_def Let_def calculate_distance_to_spot_def)

text \<open>
  C1: for every merged level map and positive spot price, the key levels hold only
  levels with a positive price, namely every positive entry of the map once; the
  distance of each is (price - spot) / spot * 100; and the sequence is sorted ascending
  by the absolute distance.
\<close>

theorem key_levels_sorted_positive:
  assumes "0 < spot"
  shows "(\<forall>k \<in> set (key_levels_of all_levels spot).
           0 < value' k
           \<and> distance_to_spot k = calculate_distance_to_spot (value' k) spot
           \<and> distance_to_spot k = (value' k - spot) / spot * 100)
       \<and> mset (map (\<lambda>k. (name k, value' k)) (key_levels_of all_levels spot))
           = mset (filter (\<lambda>item. 0 < snd item) all_levels)
       \<and> sorted (map (\<lambda>k. \<bar>distance_to_spot k\<bar>) (key_levels_of all_levels spot))"
proof -
  let ?kept = "filter (\<lambda>item. snd item \<noteq> 0 \<and> snd item > 0) all_levels"
  have kept: "?kept = filter (\<lambda>item. 0 < snd item) all_levels"
    by (rule filter_cong) auto
  have members: "set (key_levels_of all_levels spot) = make_key_level spot ` set ?kept"
    by (simp add: key_levels_of_def py_sort_def)
  have each: "0 < value' k
       \<and> distance_to_spot k = calculate_distance_to_spot (value' k) spot
       \<and> distance_to_spot k = (value' k - spot) / spot * 100"
    if "k \<in> set (key_levels_of all_levels spot)" for k
  proof -
    from that members obtain it where "it \<in> set ?kept" and "k = make_key_level spot it"
      by auto
    then show ?thesis
      by (auto simp: make_key_level_sel calculate_distance_to_spot_def)
  qed
  have "mset (map (\<lambda>k. (name k, value' k)) (key_levels_of all_levels spot))
      = mset (map (\<lambda>k. (name k, value' k)) (map (make_key_level spot) ?kept))"
    unfolding key_levels_of_def py_sort_def by (simp only: mset_map mset_sort)
  also have "map (\<lambda>k. (name k, value' k)) (map (make_key_level spot) ?kept) = ?kept"
    by (simp add: make_key_level_sel o_def)
  finally have same: "mset (map (\<lambda>k. (name k, value' k)) (key_levels_of all_levels spot))
      = mset (filter (\<lambda>item. 0 < snd item) all_levels)"
    using kept by simp
  have ordered: "sorted (map (\<lambda>k. \<bar>distance_to_spot k\<bar>) (key_levels_of all_levels spot))"
    by (simp add: key_levels_of_def py_sort_def)
  from each same ordered show ?thesis by blast
qed

theorem key_levels_sorted_positive_witness:
  "(0::real) < 100
   \<and> map (\<lambda>k. (name k, value' k, distance_to_spot k))
        (key_levels_of [(''HVL'', 105), (''1D Min'', 0), (''VWAS'', 98)] 100)
       = [(''VWAS'', 98, - 2), (''HVL'', 105, 5)]
   \<and> sorted (map (\<lambda>k. \<bar>distance_to_spot k\<bar>)
        (key_levels_of [(''HVL'', 105), (''1D Min'', 0), (''VWAS'', 98)] 100))"
proof -
  have run: "map (\<lambda>k. (name k, value' k, distance_to_spot k))
      (key_levels_of [(''HVL'', 105), (''1D Min'', 0), (''VWAS'', 98)] 100)
     = [(''VWAS'', 98, - 2), (''HVL'', 105, 5)]"
    by (simp add: key_levels_of_def py_sort_def make_key_level_def Let_def
        calculate_distance_to_spot_def)
  have pos: "(0::real) < 100" by simp
  from key_levels_sorted_positive [OF pos, of "[(''HVL'', 105), (''1D Min'', 0), (''VWAS'', 98)]"]
  have "sorted (map (\<lambda>k. \<bar>distance_to_spot k\<bar>)
        (key_levels_of [(''HVL'', 105), (''1D Min'', 0), (''VWAS'', 98)] 100))"
    by simp
  with run pos show ?thesis by blast
qed

subsection \<open>Confidence scoring\<close>

text \<open>
  C2, as stated: the confidence is strictly decreasing in the absolute distance for a
  fixed base. It is not: the distance factor is floored at 0.1, so distances of 95 and
  100 percent score the same.
\<close>

theorem calculate_confidence_not_strict:
  "\<bar>95::real\<bar> < \<bar>100\<bar> \<and> \<not> calculate_confidence (1/2) 100 < calculate_confidence (1/2) 95"
  by (simp add: calculate_confidence_def)

text \<open>
  C2, amended: for a base confidence in (0,1] the confidence is
  min(1, base * max(0.1, 1 - |d|/100)), lies in [0,1], equals the base at d = 0, never
  increases with |d|, decreases strictly as long as the smaller distance is below 90,
  and is exactly a tenth of the base from |d| = 90 on (so also for |d| >= 100).
\<close>

theorem calculate_confidence_profile:
  assumes "0 < base" and "base \<le> 1"
  shows "calculate_confidence base d = min 1 (base * max (1/10) (1 - \<bar>d\<bar> / 100))
       \<and> 0 \<le> calculate_confidence base d \<and> calculate_confidence base d \<le> 1
       \<and> calculate_confidence base 0 = base
       \<and> (\<bar>d1\<bar> \<le> \<bar>d2\<bar> \<longrightarrow> calculate_confidence base d2 \<le> calculate_confidence base d1)
       \<and> (\<bar>d1\<bar> < \<bar>d2\<bar> \<and> \<bar>d1\<bar> < 90 \<longrightarrow>
            calculate_confidence base d2 < calculate_confidence base d1)
       \<and> (90 \<le> \<bar>d\<bar> \<longrightarrow> calculate_confidence base d = base / 10)"
proof -
  have le1: "base * max (1/10) (1 - \<bar>x\<bar> / 100) \<le> 1" for x
  proof -
    have "max (1/10) (1 - \<bar>x\<bar> / 100) \<le> 1" by simp
    with assms have "base * max (1/10) (1 - \<bar>x\<bar> / 100) \<le> 1 * 1"
      by (intro mult_mono) simp_all
    then show ?thesis by simp
  qed
  have eq: "calculate_confidence base x = base * max (1/10) (1 - \<bar>x\<bar> / 100)" for x
    using le1 [of x] by (simp add: calculate_confidence_def)
  have pos: "0 \<le> calculate_confidence base d"
    using assms by (simp add: eq)
  have zero: "calculate_confidence base 0 = base"
    by (simp add: eq)
  have mono: "calculate_confidence base d2 \<le> calculate_confidence base d1" if "\<bar>d1\<bar> \<le> \<bar>d2\<bar>"
  proof -
    have "max (1/10) (1 - \<bar>d2\<bar> / 100) \<le> max (1/10) (1 - \<bar>d1\<bar> / 100)"
      using that by simp
    then show ?thesis
      using assms by (simp add: eq)
  qed
  have strict: "calculate_confidence base d2 < calculate_confidence base d1"
    if "\<bar>d1\<bar> < \<bar>d2\<bar>" and "\<bar>d1\<bar> < 90"
  proof -
    have "max (1/10) (1 - \<bar>d2\<bar> / 100) < max (1/10) (1 - \<bar>d1\<bar> / 100)"
      using that by (simp add: max_def)
    then show ?thesis
      using assms by (simp add: eq)
  qed
  have floor: "calculate_confidence base d = base / 10" if "90 \<le> \<bar>d\<bar>"
  proof -
    have "max (1/10) (1 - \<bar>d\<bar> / 100) = 1/10"
      using that by (simp add: max_def)
    then show ?thesis by (simp add: eq)
  qed
  show ?thesis
    using eq [of d] le1 [of d] pos zero mono strict floor
    by (simp add: calculate_confidence_def)
qed

theorem calculate_confidence_profile_witness:
  "(0::real) < 1/2 \<and> (1/2::real) \<le> 1
   \<and> calculate_confidence (1/2) 50 = 1/4
   \<and> calculate_confidence (1/2) 0 = 1/2
   \<and> calculate_confidence (1/2) 50 < calculate_confidence (1/2) 10
   \<and> calculate_confidence (1/2) 120 = 1/20"
  using calculate_confidence_profile [of "1/2" 50 10 50]
    calculate_confidence_profile [of "1/2" 120 10 50]
  by simp

subsection \<open>Band filter\<close>

text \<open>
  C3: for every strike-to-OI mapping, spot price and band, the call filter returns only
  strikes s with spot < s <= spot*(1+band/100) in ascending order, the put filter only
  strikes s with spot*(1-band/100) <= s < spot in descending order, each at most 10 of
  them and each with the open interest the mapping gives it.
\<close>

theorem band_filter_strikes:
  assumes "distinct (map fst strikes_dict)"
  shows "(\<forall>k \<in> set (map fst (filter_call_strikes spot strikes_dict band)).
            spot < k \<and> k \<le> spot * (1 + band / 100))
       \<and> sorted (map fst (filter_call_strikes spot strikes_dict band))
       \<and> length (filter_call_strikes spot strikes_dict band) \<le> 10
       \<and> set (filter_call_strikes spot strikes_dict band) \<subseteq> set strikes_dict
       \<and> (\<forall>k \<in> set (map fst (filter_put_strikes spot strikes_dict band)).
            spot * (1 - band / 100) \<le> k \<and> k < spot)
       \<and> sorted (rev (map fst (filter_put_strikes spot strikes_dict band)))
       \<and> length (filter_put_strikes spot strikes_dict band) \<le> 10
       \<and> set (filter_put_strikes spot strikes_dict band) \<subseteq> set strikes_dict"
proof -
  let ?C = "\<lambda>(k::real, oi::real). k > spot \<and> k \<le> spot * (1 + band / 100)"
  let ?P = "\<lambda>(k::real, oi::real). k < spot \<and> k \<ge> spot * (1 - band / 100)"
  have calls: "filter_call_strikes spot strikes_dict band
      = take 10 (sort_key fst (filter ?C strikes_dict))"
    using distinct_take_sort_filter [OF assms, of 10 ?C]
    by (simp add: filter_call_strikes_def py_sort_def dict_of_distinct)
  have "distinct (map fst (rev (filter ?P strikes_dict)))"
    using distinct_map_filter [OF assms, of ?P] by (simp add: rev_map [symmetric])
  then have "distinct (map fst (sort_key fst (rev (filter ?P strikes_dict))))"
    by (simp only: distinct_map_sort_key)
  then have "distinct (rev (map fst (sort_key fst (rev (filter ?P strikes_dict)))))"
    by (simp only: distinct_rev)
  then have "distinct (take 10 (rev (map fst (sort_key fst (rev (filter ?P strikes_dict))))))"
    by (rule distinct_take)
  then have "distinct (map fst (take 10 (rev (sort_key fst (rev (filter ?P strikes_dict))))))"
    by (simp only: take_map rev_map)
  then have puts: "filter_put_strikes spot strikes_dict band
      = take 10 (rev (sort_key fst (rev (filter ?P strikes_dict))))"
    by (simp add: filter_put_strikes_def py_sort_reverse_def dict_of_distinct)
  have c1: "\<forall>k \<in> set (map fst (filter_call_strikes spot strikes_dict band)).
            spot < k \<and> k \<le> spot * (1 + band / 100)"
    unfolding calls by (auto dest!: in_set_takeD)
  have c2: "sorted (map fst (filter_call_strikes spot strikes_dict band))"
    unfolding calls by (simp add: take_map [symmetric] sorted_wrt_take)
  have c3: "length (filter_call_strikes spot strikes_dict band) \<le> 10"
    unfolding calls by simp
  have c4: "set (filter_call_strikes spot strikes_dict band) \<subseteq> set strikes_dict"
    unfolding calls by (auto dest!: in_set_takeD)
  have p1: "\<forall>k \<in> set (map fst (filter_put_strikes spot strikes_dict band)).
            spot * (1 - band / 100) \<le> k \<and> k < spot"
    unfolding puts by (auto dest!: in_set_takeD)
  have "sorted (rev (map fst (rev (sort_key fst (rev (filter ?P strikes_dict))))))"
    by (simp add: rev_map [symmetric])
  then have "sorted (rev (take 10 (map fst (rev (sort_key fst (rev (filter ?P strikes_dict)))))))"
    by (simp add: rev_take sorted_wrt_drop)
  then have p2: "sorted (rev (map fst (filter_put_strikes spot strikes_dict band)))"
    unfolding puts by (simp add: take_map)
  have p3: "length (filter_put_strikes spot strikes_dict band) \<le> 10"
    unfolding puts by simp
  have p4: "set (filter_put_strikes spot strikes_dict band) \<subseteq> set strikes_dict"
    unfolding puts by (auto dest!: in_set_takeD)
  from c1 c2 c3 c4 p1 p2 p3 p4 show ?thesis by blast
qed

theorem band_filter_strikes_witness:
  "distinct (map fst [(120, 5), (90, 7), (105, 1), (95, 2), (101, 3), (111, 9::real)] :: real list)
   \<and> filter_call_strikes 100 [(120, 5), (90, 7), (105, 1), (95, 2), (101, 3), (111, 9)] 10
       = [(101, 3), (105, 1)]
   \<and> filter_put_strikes 100 [(120, 5), (90, 7), (105, 1), (95, 2), (101, 3), (111, 9)] 10
       = [(95, 2), (90, 7)]
   \<and> sorted (map fst
        (filter_call_strikes 100 [(120, 5), (90, 7), (105, 1), (95, 2), (101, 3), (111, 9)] 10))"
proof -
  let ?d = "[(120, 5), (90, 7), (105, 1), (95, 2), (101, 3), (111, 9)] :: (real \<times> real) list"
  have d: "distinct (map fst ?d)" by simp
  have calls: "filter_call_strikes 100 ?d 10 = [(101, 3), (105, 1)]"
    by (simp add: filter_call_strikes_def py_sort_def dict_of_def dict_update_def dict_set_def)
  have puts: "filter_put_strikes 100 ?d 10 = [(95, 2), (90, 7)]"
    by (simp add: filter_put_strikes_def py_sort_reverse_def dict_of_def dict_update_def
        dict_set_def)
  from band_filter_strikes [OF d, of 100 10]
  have "sorted (map fst (filter_call_strikes 100 ?d 10))" by blast
  with d calls puts show ?thesis by blast
qed

subsection \<open>Timeframe classification\<close>

lemma all_groups_append: "all_groups (append_to_group b i g) = all_groups g + {#i#}"
  by (cases b) (simp_all add: all_groups_def append_to_group_def)

lemma group_of_append:
  "set (group_of b' (append_to_group b i g)) = (if b' = b then insert i (set (group_of b' g))
                                                 else set (group_of b' g))"
  by (cases b; cases b') (simp_all add: group_of_def append_to_group_def)

lemma group_by_timeframe_all:
  "group_by_timeframe clk xs (g0, t0) = (g, t') \<Longrightarrow>
   all_groups g = all_groups g0 + mset (filter (\<lambda>i. expiry_date i \<noteq> None) xs)"
proof (induction xs arbitrary: g0 t0)
  case Nil
  then show ?case by simp
next
  case (Cons i rest)
  show ?case
  proof (cases "expiry_date i")
    case None
    with Cons.prems have "group_by_timeframe clk rest (g0, t0) = (g, t')" by simp
    from Cons.IH [OF this] None show ?thesis by simp
  next
    case (Some e)
    obtain b t1 where c: "classify_timeframe clk t0 e = (b, t1)"
      by (cases "classify_timeframe clk t0 e")
    with Cons.prems Some
    have "group_by_timeframe clk rest (append_to_group b i g0, t1) = (g, t')" by simp
    from Cons.IH [OF this] Some show ?thesis by (simp add: all_groups_append)
  qed
qed

lemma group_by_timeframe_members:
  assumes "group_by_timeframe clk xs (g0, t0) = (g, t')"
    and "\<And>b i. i \<in> set (group_of b g0) \<Longrightarrow>
           \<exists>e u. expiry_date i = Some e \<and> fst (classify_timeframe clk u e) = b"
    and "i \<in> set (group_of b g)"
  shows "\<exists>e u. expiry_date i = Some e \<and> fst (classify_timeframe clk u e) = b"
  using assms
proof (induction xs arbitrary: g0 t0)
  case Nil
  then show ?case by simp
next
  case (Cons x rest)
  show ?case
  proof (cases "expiry_date x")
    case None
    with Cons.prems(1) have "group_by_timeframe clk rest (g0, t0) = (g, t')" by simp
    from Cons.IH [OF this Cons.prems(2) Cons.prems(3)] show ?thesis .
  next
    case (Some e)
    obtain bx t1 where c: "classify_timeframe clk t0 e = (bx, t1)"
      by (cases "classify_timeframe clk t0 e")
    with Cons.prems(1) Some
    have run: "group_by_timeframe clk rest (append_to_group bx x g0, t1) = (g, t')" by simp
    have inv: "\<exists>e u. expiry_date j = Some e \<and> fst (classify_timeframe clk u e) = b'"
      if "j \<in> set (group_of b' (append_to_group bx x g0))" for b' j
    proof (cases "b' = bx \<and> j = x")
      case True
      with Some c show ?thesis by (metis fst_conv)
    next
      case False
      with that have "j \<in> set (group_of b' g0)"
        by (auto simp: group_of_append split: if_splits)
      then show ?thesis by (rule Cons.prems(2))
    qed
    from Cons.IH [OF run inv Cons.prems(3)] show ?thesis .
  qed
qed

lemma days_until_friday_range:
  "1 \<le> days_until_friday now \<and> days_until_friday now \<le> 7
   \<and> (weekday now + days_until_friday now) mod 7 = 4
   \<and> (days_until_friday now = 7 \<longleftrightarrow> weekday now = 4)"
proof -
  have "0 \<le> weekday now" "weekday now < 7"
    by (simp_all add: weekday_def)
  then show ?thesis
    unfolding days_until_friday_def Let_def by presburger
qed

text \<open>
  C4: the grouping loop puts every instrument that has an expiry date into exactly one
  of the four lists, and every member of a list was classified into it by the chain
  0DTE, Current, 1W, 1M, default Current, each rule evaluated only when the earlier ones
  failed. Current means that the expiry date is the next Friday, which is one to seven
  days after today and seven days after a Friday; 1W means 5 to 12 whole days to
  expiry, 1M means 20 to 40; 0DTE means that 08:00 UTC of the expiry day is more than
  0 and at most 24 hours ahead.
\<close>

theorem timeframe_classification:
  assumes "group_by_timeframe clk instruments (no_groups, t) = (g, t')"
  shows "mset (dte0_instruments g) + mset (current_instruments g)
           + mset (week1_instruments g) + mset (month1_instruments g)
         = mset (filter (\<lambda>i. expiry_date i \<noteq> None) instruments)
       \<and> (\<forall>b. \<forall>i \<in> set (group_of b g).
             \<exists>e u. expiry_date i = Some e \<and> fst (classify_timeframe clk u e) = b)
       \<and> fst (classify_timeframe clk u e)
           = (if is_0dte (clk u) e then DTE0
              else if is_current_weekly_monthly (clk (u + 1)) e then Current
              else if is_1w_expiry (clk (u + 2)) e then Week1
              else if is_1m_expiry (clk (u + 3)) e then Month1
              else Current)
       \<and> (is_0dte now e \<longleftrightarrow>
            0 < microseconds_of (e\<lparr>hour := 8, minute := 0, second := 0, microsecond := 0\<rparr>)
                  - microseconds_of now
            \<and> microseconds_of (e\<lparr>hour := 8, minute := 0, second := 0, microsecond := 0\<rparr>)
                  - microseconds_of now \<le> 24 * 3600 * 1000000)
       \<and> (is_current_weekly_monthly now e \<longleftrightarrow>
            toordinal e = toordinal now + days_until_friday now)
       \<and> 1 \<le> days_until_friday now \<and> days_until_friday now \<le> 7
       \<and> (weekday now + days_until_friday now) mod 7 = 4
       \<and> (days_until_friday now = 7 \<longleftrightarrow> weekday now = 4)
       \<and> (is_1w_expiry now e \<longleftrightarrow> 5 \<le> days_between e now \<and> days_between e now \<le> 12)
       \<and> (is_1m_expiry now e \<longleftrightarrow> 20 \<le> days_between e now \<and> days_between e now \<le> 40)"
proof -
  have "all_groups g = all_groups no_groups
          + mset (filter (\<lambda>i. expiry_date i \<noteq> None) instruments)"
    using assms by (rule group_by_timeframe_all)
  then have part: "mset (dte0_instruments g) + mset (current_instruments g)
           + mset (week1_instruments g) + mset (month1_instruments g)
         = mset (filter (\<lambda>i. expiry_date i \<noteq> None) instruments)"
    by (simp add: all_groups_def no_groups_def)
  have empty: "\<exists>e u. expiry_date i = Some e \<and> fst (classify_timeframe clk u e) = b"
    if "i \<in> set (group_of b no_groups)" for b i
    using that by (cases b) (simp_all add: group_of_def no_groups_def)
  have members: "\<forall>b. \<forall>i \<in> set (group_of b g).
             \<exists>e u. expiry_date i = Some e \<and> fst (classify_timeframe clk u e) = b"
    using group_by_timeframe_members [OF assms empty] by blast
  have chain: "fst (classify_timeframe clk u e)
           = (if is_0dte (clk u) e then DTE0
              else if is_current_weekly_monthly (clk (u + 1)) e then Current
              else if is_1w_expiry (clk (u + 2)) e then Week1
              else if is_1m_expiry (clk (u + 3)) e then Month1
              else Current)"
    by (simp add: classify_timeframe_def)
  have dte: "is_0dte now e \<longleftrightarrow>
            0 < microseconds_of (e\<lparr>hour := 8, minute := 0, second := 0, microsecond := 0\<rparr>)
                  - microseconds_of now
            \<and> microseconds_of (e\<lparr>hour := 8, minute := 0, second := 0, microsecond := 0\<rparr>)
                  - microseconds_of now \<le> 24 * 3600 * 1000000"
  proof -
    define x where "x = microseconds_of (e\<lparr>hour := 8, minute := 0, second := 0,
        microsecond := 0\<rparr>) - microseconds_of now"
    have a: "(real_of_int x / 1000000 \<le> 24 * 3600) = (x \<le> 24 * 3600 * 1000000)"
      by (simp add: divide_le_eq)
    have b: "(0 < real_of_int x / 1000000) = (0 < x)"
      by simp
    have "is_0dte now e \<longleftrightarrow> 0 < real_of_int x / 1000000 \<and> real_of_int x / 1000000 \<le> 24 * 3600"
      by (simp only: is_0dte_def total_seconds_def Let_def x_def)
    also have "\<dots> \<longleftrightarrow> 0 < x \<and> x \<le> 24 * 3600 * 1000000"
      by (simp only: a b)
    finally show ?thesis
      unfolding x_def .
  qed
  have cur: "is_current_weekly_monthly now e \<longleftrightarrow>
            toordinal e = toordinal now + days_until_friday now"
    by (simp add: is_current_weekly_monthly_def)
  have w1: "is_1w_expiry now e \<longleftrightarrow> 5 \<le> days_between e now \<and> days_between e now \<le> 12"
    by (simp add: is_1w_expiry_def Let_def)
  have m1: "is_1m_expiry now e \<longleftrightarrow> 20 \<le> days_between e now \<and> days_between e now \<le> 40"
    by (simp add: is_1m_expiry_def Let_def)
  from part members chain dte cur days_until_friday_range [of now] w1 m1
  show ?thesis by blast
qed

lemma jan25_ordinal: "toordinal (jan25 d h) = 739251 + d"
  by (simp add: jan25_def toordinal_def days_before_year_def days_before_month_def
      dict_get_def is_leap_def)

lemma jan25_microseconds:
  "microseconds_of (jan25 d h) = ((739251 + d) * 24 + h) * 3600000000"
  by (simp add: microseconds_of_def jan25_ordinal) (simp add: jan25_def)

lemma jan25_8am: "(jan25 d h)\<lparr>hour := 8, minute := 0, second := 0, microsecond := 0\<rparr> = jan25 d 8"
  by (simp add: jan25_def)

theorem timeframe_classification_witness:
  "group_by_timeframe (\<lambda>n. jan25 1 9)
     [sample_call (Some (jan25 2 0)) 1 1, sample_call (Some (jan25 3 0)) 2 1,
      sample_call (Some (jan25 8 0)) 3 1, sample_call (Some (jan25 25 0)) 4 1,
      sample_call (Some (jan25 15 0)) 5 1, sample_call None 6 1] (no_groups, 0)
     = (\<lparr>current_instruments = [sample_call (Some (jan25 3 0)) 2 1,
                                 sample_call (Some (jan25 15 0)) 5 1],
         dte0_instruments = [sample_call (Some (jan25 2 0)) 1 1],
         week1_instruments = [sample_call (Some (jan25 8 0)) 3 1],
         month1_instruments = [sample_call (Some (jan25 25 0)) 4 1]\<rparr>, 14)
   \<and> mset [sample_call (Some (jan25 2 0)) 1 1] + mset [sample_call (Some (jan25 3 0)) 2 1,
                                 sample_call (Some (jan25 15 0)) 5 1]
       + mset [sample_call (Some (jan25 8 0)) 3 1] + mset [sample_call (Some (jan25 25 0)) 4 1]
     = mset (filter (\<lambda>i. expiry_date i \<noteq> None)
         [sample_call (Some (jan25 2 0)) 1 1, sample_call (Some (jan25 3 0)) 2 1,
          sample_call (Some (jan25 8 0)) 3 1, sample_call (Some (jan25 25 0)) 4 1,
          sample_call (Some (jan25 15 0)) 5 1, sample_call None 6 1])
   \<and> days_until_friday (jan25 1 9) = 2"
proof -
  let ?clk = "\<lambda>n::nat. jan25 1 9"
  have wd: "weekday (jan25 1 9) = 2"
    by (simp add: weekday_def jan25_ordinal)
  have duf: "days_until_friday (jan25 1 9) = 2"
    by (simp add: days_until_friday_def wd)
  have c2: "classify_timeframe ?clk u (jan25 2 0) = (DTE0, u + 1)" for u
    by (simp add: classify_timeframe_def is_0dte_def total_seconds_def jan25_8am
        jan25_microseconds)
  have c3: "classify_timeframe ?clk u (jan25 3 0) = (Current, u + 2)" for u
    by (simp add: classify_timeframe_def is_0dte_def total_seconds_def jan25_8am
        jan25_microseconds is_current_weekly_monthly_def jan25_ordinal duf)
  have c8: "classify_timeframe ?clk u (jan25 8 0) = (Week1, u + 3)" for u
    by (simp add: classify_timeframe_def is_0dte_def total_seconds_def jan25_8am
        jan25_microseconds is_current_weekly_monthly_def jan25_ordinal duf is_1w_expiry_def
        days_between_def)
  have c25: "classify_timeframe ?clk u (jan25 25 0) = (Month1, u + 4)" for u
    by (simp add: classify_timeframe_def is_0dte_def total_seconds_def jan25_8am
        jan25_microseconds is_current_weekly_monthly_def jan25_ordinal duf is_1w_expiry_def
        is_1m_expiry_def days_between_def)
  have c15: "classify_timeframe ?clk u (jan25 15 0) = (Current, u + 4)" for u
    by (simp add: classify_timeframe_def is_0dte_def total_seconds_def jan25_8am
        jan25_microseconds is_current_weekly_monthly_def jan25_ordinal duf is_1w_expiry_def
        is_1m_expiry_def days_between_def)
  have e: "expiry_date (sample_call x k oi) = x" for x k oi
    by (simp add: sample_call_def)
  have run: "group_by_timeframe ?clk
     [sample_call (Some (jan25 2 0)) 1 1, sample_call (Some (jan25 3 0)) 2 1,
      sample_call (Some (jan25 8 0)) 3 1, sample_call (Some (jan25 25 0)) 4 1,
      sample_call (Some (jan25 15 0)) 5 1, sample_call None 6 1] (no_groups, 0)
     = (\<lparr>current_instruments = [sample_call (Some (jan25 3 0)) 2 1,
                                 sample_call (Some (jan25 15 0)) 5 1],
         dte0_instruments = [sample_call (Some (jan25 2 0)) 1 1],
         week1_instruments = [sample_call (Some (jan25 8 0)) 3 1],
         month1_instruments = [sample_call (Some (jan25 25 0)) 4 1]\<rparr>, 14)"
    by (simp add: e c2 c3 c8 c25 c15 append_to_group_def no_groups_def)
  from timeframe_classification [OF run]
  have "mset [sample_call (Some (jan25 2 0)) 1 1] + mset [sample_call (Some (jan25 3 0)) 2 1,
                                 sample_call (Some (jan25 15 0)) 5 1]
       + mset [sample_call (Some (jan25 8 0)) 3 1] + mset [sample_call (Some (jan25 25 0)) 4 1]
     = mset (filter (\<lambda>i. expiry_date i \<noteq> None)
         [sample_call (Some (jan25 2 0)) 1 1, sample_call (Some (jan25 3 0)) 2 1,
          sample_call (Some (jan25 8 0)) 3 1, sample_call (Some (jan25 25 0)) 4 1,
          sample_call (Some (jan25 15 0)) 5 1, sample_call None 6 1])"
    by simp
  with run duf show ?thesis by blast
qed

subsection \<open>Accumulation per key\<close>

lemma py_max_from_in: "py_max_from key m xs \<in> set (m # xs)"
  by (induction xs arbitrary: m) auto

lemma py_max_from_ge: "y \<in> set (m # xs) \<Longrightarrow> key y \<le> key (py_max_from key m xs)"
proof (induction xs arbitrary: m y)
  case Nil
  then show ?case by simp
next
  case (Cons x xs)
  have base: "key m \<le> key (py_max_from key (if key m < key x then x else m) xs)"
  proof -
    have "key m \<le> key (if key m < key x then x else m)" by (simp add: less_imp_le)
    also have "\<dots> \<le> key (py_max_from key (if key m < key x then x else m) xs)"
      by (rule Cons.IH) simp
    finally show ?thesis .
  qed
  have new: "key x \<le> key (py_max_from key (if key m < key x then x else m) xs)"
  proof -
    have "key x \<le> key (if key m < key x then x else m)" by (simp add: not_less)
    also have "\<dots> \<le> key (py_max_from key (if key m < key x then x else m) xs)"
      by (rule Cons.IH) simp
    finally show ?thesis .
  qed
  from Cons.prems consider "y = m" | "y = x" | "y \<in> set xs" by auto
  then show ?case
  proof cases
    case 1
    with base show ?thesis by simp
  next
    case 2
    with new show ?thesis by simp
  next
    case 3
    then show ?thesis by (simp add: Cons.IH)
  qed
qed

lemma dict_get_dict_set:
  "dict_get (dict_set d k v) k' dflt = (if k' = k then v else dict_get d k' dflt)"
  by (simp add: dict_get_def dict_set_def update_conv')

lemma keys_dict_set: "fst ` set (dict_set d k v) = insert k (fst ` set d)"
  by (simp add: dict_set_def dom_update)

lemma distinct_dict_set: "distinct (map fst d) \<Longrightarrow> distinct (map fst (dict_set d k v))"
  by (simp add: dict_set_def distinct_update)

lemma fold_add_lookup:
  "dict_get (fold (\<lambda>x d. if skip x then d
                          else dict_set d (kf x) (dict_get d (kf x) 0 + w x)) xs d0) k (0::real)
     = dict_get d0 k 0 + sum_list (map w (filter (\<lambda>x. \<not> skip x \<and> kf x = k) xs))"
  by (induction xs arbitrary: d0) (auto simp: dict_get_dict_set)

lemma fold_add_keys:
  "fst ` set (fold (\<lambda>x d. if skip x then d
                           else dict_set d (kf x) (dict_get d (kf x) 0 + w x)) xs d0)
     = fst ` set d0 \<union> kf ` {x \<in> set xs. \<not> skip x}"
  by (induction xs arbitrary: d0) (auto simp: keys_dict_set)

lemma fold_add_distinct:
  "distinct (map fst d0) \<Longrightarrow>
   distinct (map fst (fold (\<lambda>x d. if skip x then d
                           else dict_set d (kf x) (dict_get d (kf x) 0 + w x)) xs d0))"
  by (induction xs arbitrary: d0) (auto simp: distinct_dict_set)

lemma dict_get_distinct:
  "distinct (map fst d) \<Longrightarrow> (k, v) \<in> set d \<Longrightarrow> dict_get d k dflt = v"
  by (simp add: dict_get_def)

subsection \<open>Gamma wall\<close>

lemma accumulate_gamma_lookup:
  "dict_get (accumulate_gamma spot instruments) k 0
     = sum_list (map (gamma_contribution spot)
         (filter (\<lambda>inst. \<not> open_interest inst \<le> 0 \<and> strike inst = k) instruments))"
  unfolding accumulate_gamma_def
  using fold_add_lookup [of "\<lambda>inst. open_interest inst \<le> 0" strike "gamma_contribution spot"
      instruments "[]" k]
  by (simp add: dict_get_def)

lemma accumulate_gamma_keys:
  "fst ` set (accumulate_gamma spot instruments)
     = strike ` {inst \<in> set instruments. \<not> open_interest inst \<le> 0}"
  unfolding accumulate_gamma_def
  using fold_add_keys [of "\<lambda>inst. open_interest inst \<le> 0" strike "gamma_contribution spot"
      instruments "[]"]
  by simp

lemma accumulate_gamma_distinct: "distinct (map fst (accumulate_gamma spot instruments))"
  unfolding accumulate_gamma_def
  using fold_add_distinct [of "[]" "\<lambda>inst. open_interest inst \<le> 0" strike
      "gamma_contribution spot" instruments]
  by simp

lemma gamma_contribution_spec:
  "is_put inst = (\<not> is_call inst) \<Longrightarrow>
   gamma_contribution spot inst = spec_gamma_contribution spot inst"
  by (simp add: gamma_contribution_def spec_gamma_contribution_def Let_def mult.commute)

text \<open>
  C5: for a non-empty list of instruments, each a call or a put with positive open
  interest, and a positive spot price, the gamma wall is one level; its strike is a
  strike of the list at which the absolute net contribution is largest, and its label
  says "Short Gamma" when the net contribution there is negative and "Long Gamma"
  otherwise.
\<close>

theorem gamma_wall_max_net:
  assumes "instruments \<noteq> []"
    and "\<forall>inst \<in> set instruments. 0 < open_interest inst"
    and "\<forall>inst \<in> set instruments. is_put inst = (\<not> is_call inst)"
    and "0 < spot"
  shows "\<exists>k. calculate_gamma_wall instruments spot
            = Inr [(''Gamma Wall ('' @ (if spec_net_gamma spot instruments k < 0
                                       then ''Short Gamma'' else ''Long Gamma'') @ '')'', k)]
          \<and> k \<in> strike ` set instruments
          \<and> (\<forall>inst \<in> set instruments.
                \<bar>spec_net_gamma spot instruments (strike inst)\<bar>
                  \<le> \<bar>spec_net_gamma spot instruments k\<bar>)"
proof -
  let ?sg = "accumulate_gamma spot instruments"
  have all: "{inst \<in> set instruments. \<not> open_interest inst \<le> 0} = set instruments"
    using assms(2) by auto
  have keys: "fst ` set ?sg = strike ` set instruments"
    by (simp add: accumulate_gamma_keys all)
  have net: "dict_get ?sg k 0 = spec_net_gamma spot instruments k" for k
  proof -
    have f1: "filter (\<lambda>inst. \<not> open_interest inst \<le> 0 \<and> strike inst = k) instruments
        = filter (\<lambda>inst. strike inst = k) instruments"
      using assms(2) by (intro filter_cong) auto
    have f2: "map (gamma_contribution spot) (filter (\<lambda>inst. strike inst = k) instruments)
        = map (spec_gamma_contribution spot) (filter (\<lambda>inst. strike inst = k) instruments)"
      using assms(3) by (intro map_cong) (auto simp: gamma_contribution_spec)
    show ?thesis
      unfolding accumulate_gamma_lookup spec_net_gamma_def by (simp only: f1 f2)
  qed
  have item: "v = spec_net_gamma spot instruments k" if "(k, v) \<in> set ?sg" for k v
    using dict_get_distinct [OF accumulate_gamma_distinct that, of 0] net [of k] by simp
  from assms(1) keys have "?sg \<noteq> []" by auto
  then obtain x xs where sg: "?sg = x # xs" by (cases ?sg) auto
  define best where "best = py_max_from (\<lambda>item. \<bar>snd item\<bar>) x xs"
  have best_in: "best \<in> set ?sg"
    unfolding best_def sg by (rule py_max_from_in)
  then have best_val: "snd best = spec_net_gamma spot instruments (fst best)"
    using item [of "fst best" "snd best"] by simp
  have "distinct (map fst (x # xs))" "(fst best, snd best) \<in> set (x # xs)"
    using best_in accumulate_gamma_distinct [of spot instruments] by (simp_all add: sg)
  then have lookup: "map_of (x # xs) (fst best) = Some (snd best)"
    by (rule map_of_is_SomeI)
  have no_err: "\<not> (spot = 0 \<and> list_ex (\<lambda>inst. \<not> open_interest inst \<le> 0) instruments)"
    using assms(4) by simp
  have result: "calculate_gamma_wall instruments spot
      = Inr [(''Gamma Wall ('' @ (if spec_net_gamma spot instruments (fst best) < 0
                                 then ''Short Gamma'' else ''Long Gamma'') @ '')'', fst best)]"
    using assms(1) no_err
    by (simp only: calculate_gamma_wall_def sg list.case Let_def best_def [symmetric] lookup
        option.case best_val if_False simp_thms)
  have member: "fst best \<in> strike ` set instruments"
    using best_in keys by (metis image_eqI)
  have largest: "\<bar>spec_net_gamma spot instruments (strike inst)\<bar>
        \<le> \<bar>spec_net_gamma spot instruments (fst best)\<bar>" if "inst \<in> set instruments" for inst
  proof -
    from that keys have "strike inst \<in> fst ` set ?sg" by auto
    then obtain v where v: "(strike inst, v) \<in> set ?sg" by auto
    then have "v = spec_net_gamma spot instruments (strike inst)" by (rule item)
    moreover have "\<bar>snd (strike inst, v)\<bar> \<le> \<bar>snd best\<bar>"
      unfolding best_def using v py_max_from_ge [of "(strike inst, v)" x xs "\<lambda>item. \<bar>snd item\<bar>"]
      by (simp add: sg)
    ultimately show ?thesis by (simp add: best_val)
  qed
  from result member largest show ?thesis by blast
qed

theorem gamma_wall_max_net_witness:
  "list_all (\<lambda>inst. 0 < open_interest inst \<and> is_put inst = (\<not> is_call inst))
     [\<lparr>currency = ''BTC'', expiry_date = None, strike = 105, option_type = ''C'',
        is_call = True, is_put = False, instrument_name = ''BTC-2JAN25-105-C'',
        open_interest = 10, volume = 0, mark_iv = None\<rparr>,
      \<lparr>currency = ''BTC'', expiry_date = None, strike = 95, option_type = ''P'',
        is_call = False, is_put = True, instrument_name = ''BTC-2JAN25-95-P'',
        open_interest = 50, volume = 0, mark_iv = None\<rparr>]
   \<and> calculate_gamma_wall
     [\<lparr>currency = ''BTC'', expiry_date = None, strike = 105, option_type = ''C'',
        is_call = True, is_put = False, instrument_name = ''BTC-2JAN25-105-C'',
        open_interest = 10, volume = 0, mark_iv = None\<rparr>,
      \<lparr>currency = ''BTC'', expiry_date = None, strike = 95, option_type = ''P'',
        is_call = False, is_put = True, instrument_name = ''BTC-2JAN25-95-P'',
        open_interest = 50, volume = 0, mark_iv = None\<rparr>] 100
     = Inr [(''Gamma Wall (Short Gamma)'', 95)]
   \<and> \<bar>spec_net_gamma 100
     [\<lparr>currency = ''BTC'', expiry_date = None, strike = 105, option_type = ''C'',
        is_call = True, is_put = False, instrument_name = ''BTC-2JAN25-105-C'',
        open_interest = 10, volume = 0, mark_iv = None\<rparr>,
      \<lparr>currency = ''BTC'', expiry_date = None, strike = 95, option_type = ''P'',
        is_call = False, is_put = True, instrument_name = ''BTC-2JAN25-95-P'',
        open_interest = 50, volume = 0, mark_iv = None\<rparr>] 105\<bar>
     \<le> \<bar>spec_net_gamma 100
     [\<lparr>currency = ''BTC'', expiry_date = None, strike = 105, option_type = ''C'',
        is_call = True, is_put = False, instrument_name = ''BTC-2JAN25-105-C'',
        open_interest = 10, volume = 0, mark_iv = None\<rparr>,
      \<lparr>currency = ''BTC'', expiry_date = None, strike = 95, option_type = ''P'',
        is_call = False, is_put = True, instrument_name = ''BTC-2JAN25-95-P'',
        open_interest = 50, volume = 0, mark_iv = None\<rparr>] 95\<bar>"
proof -
  let ?I = "[\<lparr>currency = ''BTC'', expiry_date = None, strike = 105, option_type = ''C'',
        is_call = True, is_put = False, instrument_name = ''BTC-2JAN25-105-C'',
        open_interest = 10, volume = 0, mark_iv = None\<rparr>,
      \<lparr>currency = ''BTC'', expiry_date = None, strike = 95, option_type = ''P'',
        is_call = False, is_put = True, instrument_name = ''BTC-2JAN25-95-P'',
        open_interest = 50, volume = 0, mark_iv = None\<rparr>]"
  have h1: "?I \<noteq> []" by simp
  have h2: "\<forall>inst \<in> set ?I. 0 < open_interest inst" by simp
  have h3: "\<forall>inst \<in> set ?I. is_put inst = (\<not> is_call inst)" by simp
  have h4: "(0::real) < 100" by simp
  have hyps: "list_all (\<lambda>inst. 0 < open_interest inst \<and> is_put inst = (\<not> is_call inst)) ?I"
    by simp
  have run: "calculate_gamma_wall ?I 100 = Inr [(''Gamma Wall (Short Gamma)'', 95)]"
    by (simp add: calculate_gamma_wall_def accumulate_gamma_def gamma_contribution_def
        dict_set_def dict_get_def Let_def)
  from gamma_wall_max_net [OF h1 h2 h3 h4] obtain k where
    k: "calculate_gamma_wall ?I 100
          = Inr [(''Gamma Wall ('' @ (if spec_net_gamma 100 ?I k < 0
                                       then ''Short Gamma'' else ''Long Gamma'') @ '')'', k)]"
    and largest: "\<forall>inst \<in> set ?I.
          \<bar>spec_net_gamma 100 ?I (strike inst)\<bar> \<le> \<bar>spec_net_gamma 100 ?I k\<bar>"
    by blast
  from k run have "k = 95" by simp
  with largest have "\<bar>spec_net_gamma 100 ?I 105\<bar> \<le> \<bar>spec_net_gamma 100 ?I 95\<bar>"
    by simp
  with hyps run show ?thesis by blast
qed

subsection \<open>Trade deduplication\<close>

lemma add_unique_trades_Cons:
  "add_unique_trades acc (tr # rest) =
     add_unique_trades
       (case trade_id tr of None \<Rightarrow> acc
        | Some tid \<Rightarrow> if tid \<noteq> [] \<and> tid \<notin> set (map fst acc) then dict_set acc tid tr else acc)
       rest"
  by (simp add: add_unique_trades_def)

lemma add_unique_trades_lookup:
  "map_of (add_unique_trades acc xs) tid =
     (case map_of acc tid of
        Some t \<Rightarrow> Some t
      | None \<Rightarrow> if tid = [] then None else find (\<lambda>t. trade_id t = Some tid) xs)"
proof (induction xs arbitrary: acc)
  case Nil
  then show ?case by (simp add: add_unique_trades_def split: option.splits)
next
  case (Cons tr rest)
  show ?case
  proof (cases "trade_id tr")
    case None
    then show ?thesis
      by (simp add: add_unique_trades_Cons Cons.IH split: option.splits)
  next
    case (Some i)
    show ?thesis
    proof (cases "i \<noteq> [] \<and> i \<notin> set (map fst acc)")
      case True
      then have fresh: "map_of acc i = None"
        by (simp add: map_of_eq_None_iff)
      have "map_of (dict_set acc i tr) tid = (if tid = i then Some tr else map_of acc tid)"
        by (simp add: dict_set_def update_conv')
      then show ?thesis
        using True Some fresh
        by (auto simp: add_unique_trades_Cons Cons.IH split: option.splits)
    next
      case False
      then have "i = [] \<or> map_of acc i \<noteq> None"
        by (auto simp: map_of_eq_None_iff)
      then show ?thesis
        using False Some
        by (auto simp: add_unique_trades_Cons Cons.IH split: option.splits)
    qed
  qed
qed

lemma add_unique_trades_distinct:
  "distinct (map fst acc) \<Longrightarrow> distinct (map fst (add_unique_trades acc xs))"
proof (induction xs arbitrary: acc)
  case Nil
  then show ?case by (simp add: add_unique_trades_def)
next
  case (Cons tr rest)
  have "distinct (map fst (dict_set acc i tr))" for i
    using Cons.prems by (simp add: dict_set_def distinct_update)
  then show ?case
    using Cons.prems by (auto simp: add_unique_trades_Cons intro!: Cons.IH split: option.splits)
qed

lemma unique_trades_of_concat: "unique_trades_of chunks = add_unique_trades [] (concat chunks)"
proof -
  have "fold (\<lambda>chunk_trades acc. add_unique_trades acc chunk_trades) chunks acc
      = add_unique_trades acc (concat chunks)" for acc
    by (induction chunks arbitrary: acc) (simp_all add: add_unique_trades_def)
  then show ?thesis by (simp add: unique_trades_of_def)
qed

text \<open>
  C6, as stated: the mapping has one entry per distinct trade id, and only trades whose
  id is missing or null are skipped. The guard of line 162 tests the truth value of the
  id, so a trade whose id is the empty string is skipped as well, although its id is
  present and not null.
\<close>

theorem dedup_skips_empty_id:
  "trade_id \<lparr>trade_id = Some '''', trade_instrument_name = ''BTC-PERPETUAL'', amount = 1,
             price = 1, direction = ''buy'', timestamp = 0\<rparr> = Some ''''
   \<and> unique_trades_of
        [[\<lparr>trade_id = Some '''', trade_instrument_name = ''BTC-PERPETUAL'', amount = 1,
           price = 1, direction = ''buy'', timestamp = 0\<rparr>]] = []"
  by (simp add: unique_trades_of_def add_unique_trades_def)

text \<open>
  C6, amended: for every sequence of trade pages the mapping has exactly one entry per
  distinct non-empty trade id of the pages; every such id maps to the first trade of
  the pages, in order, that carries it; trades whose id is missing, null or empty are
  skipped; and the list returned has as many trades as there are such ids.
\<close>

theorem dedup_first_seen_wins:
  "distinct (map fst (unique_trades_of chunks))
   \<and> set (map fst (unique_trades_of chunks))
       = {tid. tid \<noteq> [] \<and> (\<exists>tr \<in> set (concat chunks). trade_id tr = Some tid)}
   \<and> (\<forall>tid. map_of (unique_trades_of chunks) tid
         = (if tid = [] then None else find (\<lambda>tr. trade_id tr = Some tid) (concat chunks)))
   \<and> length (fetch_complete_options_trades chunks)
       = card {tid. tid \<noteq> [] \<and> (\<exists>tr \<in> set (concat chunks). trade_id tr = Some tid)}
   \<and> fetch_complete_futures_trades chunks = fetch_complete_options_trades chunks"
proof -
  let ?U = "unique_trades_of chunks"
  let ?ids = "{tid. tid \<noteq> [] \<and> (\<exists>tr \<in> set (concat chunks). trade_id tr = Some tid)}"
  have d: "distinct (map fst ?U)"
    by (simp add: unique_trades_of_concat add_unique_trades_distinct)
  have look: "map_of ?U tid
      = (if tid = [] then None else find (\<lambda>tr. trade_id tr = Some tid) (concat chunks))" for tid
    by (simp add: unique_trades_of_concat add_unique_trades_lookup)
  have keys: "set (map fst ?U) = ?ids"
  proof -
    have "tid \<in> set (map fst ?U) \<longleftrightarrow> tid \<in> ?ids" for tid
    proof -
      have "tid \<in> set (map fst ?U) \<longleftrightarrow> map_of ?U tid \<noteq> None"
        by (simp add: map_of_eq_None_iff)
      also have "\<dots> \<longleftrightarrow> tid \<noteq> [] \<and> find (\<lambda>tr. trade_id tr = Some tid) (concat chunks) \<noteq> None"
        by (simp add: look)
      also have "\<dots> \<longleftrightarrow> tid \<in> ?ids"
        by (auto simp: find_None_iff)
      finally show ?thesis .
    qed
    then show ?thesis by blast
  qed
  have "length (fetch_complete_options_trades chunks) = length (map fst ?U)"
    by (simp add: fetch_complete_options_trades_def)
  also have "\<dots> = card (set (map fst ?U))"
    using d by (simp only: distinct_card)
  finally have len: "length (fetch_complete_options_trades chunks) = card ?ids"
    by (simp only: keys)
  have same: "fetch_complete_futures_trades chunks = fetch_complete_options_trades chunks"
    by (simp add: fetch_complete_futures_trades_def fetch_complete_options_trades_def)
  from d keys look len same show ?thesis by blast
qed

theorem dedup_first_seen_wins_witness:
  "map_of (unique_trades_of
      [[\<lparr>trade_id = Some ''a'', trade_instrument_name = ''first'', amount = 1, price = 1,
          direction = ''buy'', timestamp = 0\<rparr>,
        \<lparr>trade_id = None, trade_instrument_name = ''no id'', amount = 1, price = 1,
          direction = ''buy'', timestamp = 0\<rparr>],
       [\<lparr>trade_id = Some ''a'', trade_instrument_name = ''second'', amount = 1, price = 1,
          direction = ''buy'', timestamp = 0\<rparr>]]) ''a''
     = Some \<lparr>trade_id = Some ''a'', trade_instrument_name = ''first'', amount = 1, price = 1,
             direction = ''buy'', timestamp = 0\<rparr>
   \<and> length (fetch_complete_options_trades
      [[\<lparr>trade_id = Some ''a'', trade_instrument_name = ''first'', amount = 1, price = 1,
          direction = ''buy'', timestamp = 0\<rparr>,
        \<lparr>trade_id = None, trade_instrument_name = ''no id'', amount = 1, price = 1,
          direction = ''buy'', timestamp = 0\<rparr>],
       [\<lparr>trade_id = Some ''a'', trade_instrument_name = ''second'', amount = 1, price = 1,
          direction = ''buy'', timestamp = 0\<rparr>]]) = 1"
proof -
  let ?chunks = "[[\<lparr>trade_id = Some ''a'', trade_instrument_name = ''first'', amount = 1, price = 1,
          direction = ''buy'', timestamp = 0\<rparr>,
        \<lparr>trade_id = None, trade_instrument_name = ''no id'', amount = 1, price = 1,
          direction = ''buy'', timestamp = 0\<rparr>],
       [\<lparr>trade_id = Some ''a'', trade_instrument_name = ''second'', amount = 1, price = 1,
          direction = ''buy'', timestamp = 0\<rparr>]]"
  from dedup_first_seen_wins [of ?chunks]
  have "map_of (unique_trades_of ?chunks) ''a''
      = (if ''a'' = [] then None else find (\<lambda>tr. trade_id tr = Some ''a'') (concat ?chunks))"
    by blast
  then have first: "map_of (unique_trades_of ?chunks) ''a''
      = Some \<lparr>trade_id = Some ''a'', trade_instrument_name = ''first'', amount = 1, price = 1,
             direction = ''buy'', timestamp = 0\<rparr>"
    by simp
  have "length (fetch_complete_options_trades ?chunks) = 1"
    by (simp add: fetch_complete_options_trades_def unique_trades_of_def add_unique_trades_def
        dict_set_def)
  with first show ?thesis by blast
qed

subsection \<open>Empty inputs and the spot-price guard\<close>

lemma calculate_atm_iv_no_error:
  "spot \<noteq> 0 \<Longrightarrow> \<exists>v. calculate_atm_iv spot xs = Inr v"
  by (simp add: calculate_atm_iv_def Let_def)

lemma calculate_gamma_wall_no_error:
  assumes "spot \<noteq> 0"
  shows "\<exists>r. calculate_gamma_wall xs spot = Inr r"
proof (cases "accumulate_gamma spot xs")
  case Nil
  then show ?thesis
    using assms by (simp add: calculate_gamma_wall_def)
next
  case (Cons y ys)
  define best where "best = py_max_from (\<lambda>item. \<bar>snd item\<bar>) y ys"
  have "best \<in> set (y # ys)"
    unfolding best_def by (rule py_max_from_in)
  then have "fst best \<in> fst ` set (y # ys)" by (rule imageI)
  then obtain v where "map_of (y # ys) (fst best) = Some v"
    by (metis map_of_eq_None_iff not_Some_eq)
  then show ?thesis
    using assms
    by (simp only: calculate_gamma_wall_def Cons list.case Let_def best_def [symmetric]
        option.case simp_thms if_False split: if_splits) blast
qed

lemma calculate_option_levels_no_error:
  assumes "spot \<noteq> 0"
  shows "\<exists>r. calculate_option_levels clk t xs spot = Inr r"
proof (cases "xs = []")
  case True
  then show ?thesis by (simp add: calculate_option_levels_def)
next
  case False
  obtain g t' where g: "group_by_timeframe clk xs (no_groups, t) = (g, t')"
    by (cases "group_by_timeframe clk xs (no_groups, t)")
  obtain v1 where v1: "calculate_atm_iv spot (current_instruments g) = Inr v1"
    using calculate_atm_iv_no_error [OF assms] by blast
  obtain v2 where v2: "calculate_atm_iv spot (dte0_instruments g) = Inr v2"
    using calculate_atm_iv_no_error [OF assms] by blast
  obtain v3 where v3: "calculate_atm_iv spot (week1_instruments g) = Inr v3"
    using calculate_atm_iv_no_error [OF assms] by blast
  obtain v4 where v4: "calculate_atm_iv spot (month1_instruments g) = Inr v4"
    using calculate_atm_iv_no_error [OF assms] by blast
  obtain r where r: "calculate_gamma_wall (dte0_instruments g) spot = Inr r"
    using calculate_gamma_wall_no_error [OF assms] by blast
  show ?thesis
    using False
    by (simp add: calculate_option_levels_def g v1 v2 v3 v4 r bind_err_def Let_def
        case_prod_beta)
qed

text \<open>
  C7: on an empty trade or instrument list the options flow analysis, the volume
  profile and the option-level calculation return their empty result and raise nothing,
  whatever the spot price; key-level generation raises (a \<open>ValueError\<close>, and nothing
  else) exactly when the index price is missing or not positive, and then returns no
  levels at all; with a positive spot price it always returns.
\<close>

theorem empty_inputs_and_spot_guard:
  "analyze_complete_options_flow clk t [] spot = ([], t)
   \<and> calculate_volume_profile_levels [] spot ccy = []
   \<and> calculate_option_levels clk t [] spot = Inr (None, t)
   \<and> (index_price f = None \<longrightarrow> fetch_index_price f = 0)
   \<and> ((\<exists>e. generate_key_levels clk t ccy f = Inl e) \<longleftrightarrow> fetch_index_price f \<le> 0)
   \<and> (fetch_index_price f \<le> 0 \<longrightarrow> generate_key_levels clk t ccy f = Inl ValueError)
   \<and> (0 < fetch_index_price f \<longrightarrow> (\<exists>r. generate_key_levels clk t ccy f = Inr r))"
proof -
  have flow: "analyze_complete_options_flow clk t [] spot = ([], t)"
    by (simp add: analyze_complete_options_flow_def)
  have profile: "calculate_volume_profile_levels [] spot ccy = []"
    by (simp add: calculate_volume_profile_levels_def)
  have levels: "calculate_option_levels clk t [] spot = Inr (None, t)"
    by (simp add: calculate_option_levels_def)
  have missing: "index_price f = None \<longrightarrow> fetch_index_price f = 0"
    by (simp add: fetch_index_price_def)
  have raises: "generate_key_levels clk t ccy f = Inl ValueError" if "fetch_index_price f \<le> 0"
    using that by (simp add: generate_key_levels_def Let_def)
  have returns: "\<exists>r. generate_key_levels clk t ccy f = Inr r" if "0 < fetch_index_price f"
  proof -
    from that have "fetch_index_price f \<noteq> 0" by simp
    from calculate_option_levels_no_error [OF this]
    obtain a where "calculate_option_levels clk t (fetch_instruments_summary (summaries f))
        (fetch_index_price f) = Inr a"
      by blast
    then show ?thesis
      using that
      by (simp add: generate_key_levels_def Let_def bind_err_def case_prod_beta)
  qed
  have iff: "(\<exists>e. generate_key_levels clk t ccy f = Inl e) \<longleftrightarrow> fetch_index_price f \<le> 0"
  proof
    assume "\<exists>e. generate_key_levels clk t ccy f = Inl e"
    then show "fetch_index_price f \<le> 0"
      using returns by (cases "0 < fetch_index_price f") auto
  next
    assume "fetch_index_price f \<le> 0"
    then show "\<exists>e. generate_key_levels clk t ccy f = Inl e"
      using raises by blast
  qed
  from flow profile levels missing iff raises returns show ?thesis by blast
qed

theorem empty_inputs_and_spot_guard_witness:
  "generate_key_levels (\<lambda>n. jan25 1 9) 0 ''BTC''
     \<lparr>index_price = None, stats = \<lparr>high_24h = 104, low_24h = 97\<rparr>, summaries = [],
      futures_chunks = [], options_chunks = []\<rparr> = Inl ValueError
   \<and> generate_key_levels (\<lambda>n. jan25 1 9) 0 ''BTC''
     \<lparr>index_price = Some 100, stats = \<lparr>high_24h = 104, low_24h = 97\<rparr>, summaries = [],
      futures_chunks = [], options_chunks = []\<rparr>
     = Inr ((key_levels_of [(''1D Max'', 104), (''1D Min'', 97)] 100,
             \<lparr>meta_currency = ''BTC'', meta_spot_price = 100, meta_put_call_ratios = [],
              meta_iv_data = [], instruments_analyzed = 0, futures_trades_count = 0,
              options_trades_count = 0\<rparr>), 0)"
proof -
  let ?f0 = "\<lparr>index_price = None, stats = \<lparr>high_24h = 104, low_24h = 97\<rparr>, summaries = [],
      futures_chunks = [], options_chunks = []\<rparr>"
  let ?f1 = "\<lparr>index_price = Some 100, stats = \<lparr>high_24h = 104, low_24h = 97\<rparr>, summaries = [],
      futures_chunks = [], options_chunks = []\<rparr>"
  have "fetch_index_price ?f0 \<le> 0"
    by (simp add: fetch_index_price_def)
  with empty_inputs_and_spot_guard [of "\<lambda>n. jan25 1 9" 0 100 "''BTC''" ?f0]
  have no_spot: "generate_key_levels (\<lambda>n. jan25 1 9) 0 ''BTC'' ?f0 = Inl ValueError"
    by blast
  have spot: "fetch_index_price ?f1 = 100"
    by (simp add: fetch_index_price_def)
  have stages: "fetch_instruments_summary (summaries ?f1) = []"
    "fetch_complete_futures_trades (futures_chunks ?f1) = []"
    "fetch_complete_options_trades (options_chunks ?f1) = []"
    by (simp_all add: fetch_instruments_summary_def fetch_complete_futures_trades_def
        fetch_complete_options_trades_def unique_trades_of_def)
  have day: "calculate_1d_levels (stats ?f1) = (104, 97)"
    by (simp add: calculate_1d_levels_def)
  have merged: "merge_levels 104 97 [] None [] = [(''1D Max'', 104), (''1D Min'', 97)]"
    by (simp add: merge_levels_def dict_set_def dict_update_def)
  have opt: "calculate_option_levels (\<lambda>n. jan25 1 9) 0 [] 100 = Inr (None, 0)"
    by (simp add: calculate_option_levels_def)
  have flow: "analyze_complete_options_flow (\<lambda>n. jan25 1 9) 0 [] 100 = ([], 0)"
    by (simp add: analyze_complete_options_flow_def)
  have prof: "calculate_volume_profile_levels [] 100 ''BTC'' = []"
    by (simp add: calculate_volume_profile_levels_def)
  have "generate_key_levels (\<lambda>n. jan25 1 9) 0 ''BTC'' ?f1
     = Inr ((key_levels_of [(''1D Max'', 104), (''1D Min'', 97)] 100,
             \<lparr>meta_currency = ''BTC'', meta_spot_price = 100, meta_put_call_ratios = [],
              meta_iv_data = [], instruments_analyzed = 0, futures_trades_count = 0,
              options_trades_count = 0\<rparr>), 0)"
    unfolding generate_key_levels_def Let_def spot stages day
    by (simp add: opt flow prof merged bind_err_def)
  with no_spot show ?thesis by blast
qed

subsection \<open>Volume-weighted average strike\<close>

text \<open>\<open>math.exp\<close> returns up to 600 at least and raises from 1024 on at the latest.\<close>

lemma exp_le_dbl_max:
  assumes "x \<le> 600"
  shows "exp x \<le> dbl_max"
proof -
  from assms have "exp x \<le> exp (600::real)" by simp
  also have "exp (600::real) = exp 1 ^ 600"
    using exp_of_nat_mult [of 600 "1::real"] by simp
  also have "\<dots> \<le> 3 ^ 600"
    by (rule power_mono) (simp_all add: exp_le)
  also have "(3::real) ^ 600 \<le> dbl_max"
    by (simp add: dbl_max_def)
  finally show ?thesis .
qed

lemma dbl_max_less_exp:
  assumes "1024 \<le> x"
  shows "dbl_max < exp x"
proof -
  have "dbl_max < (2::real) ^ 1024"
    by (simp add: dbl_max_def)
  also have "(2::real) ^ 1024 \<le> exp 1 ^ 1024"
    using exp_ge_add_one_self [of 1] by (intro power_mono) simp_all
  also have "exp 1 ^ 1024 = exp (1024::real)"
    using exp_of_nat_mult [of 1024 "1::real"] by simp
  also from assms have "exp (1024::real) \<le> exp x" by simp
  finally show ?thesis .
qed

lemma math_exp_returns: "x \<le> 600 \<Longrightarrow> math_exp x = Inr (exp x)"
  using exp_le_dbl_max [of x] by (simp add: math_exp_def)

lemma math_exp_raises: "1024 \<le> x \<Longrightarrow> math_exp x = Inl OverflowError"
  by (simp add: math_exp_def dbl_max_less_exp)

text \<open>The time weight of a trade stamped at most 7200 hours (300 days, 25920000000 ms)
  after the reading of the clock is defined; that of a trade stamped 12288 hours or
  more after it is not.\<close>

lemma time_weight_returns:
  assumes "ts \<le> now + 25920000000"
  shows "math_exp (- ((now - ts) / (1000 * 60 * 60)) / 12)
       = Inr (exp (- ((now - ts) / (1000 * 60 * 60)) / 12))"
proof -
  from assms have "- ((now - ts) / (1000 * 60 * 60)) / 12 \<le> 600"
    by (simp add: field_simps)
  then show ?thesis by (rule math_exp_returns)
qed

lemma time_weight_raises:
  assumes "now + 44236800000 \<le> ts"
  shows "math_exp (- ((now - ts) / (1000 * 60 * 60)) / 12) = Inl OverflowError"
proof -
  from assms have "1024 \<le> - ((now - ts) / (1000 * 60 * 60)) / 12"
    by (simp add: field_simps)
  then show ?thesis by (rule math_exp_raises)
qed



lemma flow_step_raises:
  assumes "valid_flow_trade tr"
    and "math_exp (- ((timestamp_ms (clk t) - timestamp tr) / (1000 * 60 * 60)) / 12) = Inl e"
  shows "flow_step spot clk tr (sf, tv, t) = (sf, tv + trade_notional spot tr, t + 1)"
proof -
  from assms(1) obtain k where k: "flow_strike tr = Some k"
    by (auto simp: valid_flow_trade_def)
  then have parts: "trade_instrument_name tr \<noteq> []"
    "\<not> length (split (CHR ''-'') (trade_instrument_name tr)) < 4"
    "py_float (split (CHR ''-'') (trade_instrument_name tr) ! 2) = Some k"
    by (auto simp: flow_strike_def Let_def split: if_splits)
  from assms(1) have pos: "\<not> (amount tr \<le> 0 \<or> price tr \<le> 0)"
    by (auto simp: valid_flow_trade_def)
  show ?thesis
    using parts pos assms(2)
    by (simp add: flow_step_def Let_def trade_notional_def)
qed


lemma flow_step_add:
  assumes "valid_flow_trade tr" and "strike_of tr \<noteq> 0"
    and w: "math_exp (- ((timestamp_ms (clk t) - timestamp tr) / (1000 * 60 * 60)) / 12) = Inr w"
  shows "\<exists>data. flow_step spot clk tr (sf, tv, t)
            = (dict_set sf (strike_of tr) data, tv + trade_notional spot tr, t + 1)
          \<and> total_volume data
              = total_volume (dict_get sf (strike_of tr) no_flow) + trade_notional spot tr"
proof -
  from assms(1) obtain k where k: "flow_strike tr = Some k"
    by (auto simp: valid_flow_trade_def)
  with assms(2) have k0: "k \<noteq> 0" and sk: "strike_of tr = k"
    by (simp_all add: strike_of_def)
  from k have parts: "trade_instrument_name tr \<noteq> []"
    "\<not> length (split (CHR ''-'') (trade_instrument_name tr)) < 4"
    "py_float (split (CHR ''-'') (trade_instrument_name tr) ! 2) = Some k"
    by (auto simp: flow_strike_def Let_def split: if_splits)
  from assms(1) have pos: "\<not> (amount tr \<le> 0 \<or> price tr \<le> 0)"
    by (auto simp: valid_flow_trade_def)
  have tte: "\<not> (1 / 365 \<le> (0::real))" by simp
  from pos have pos': "(amount tr \<le> 0 \<or> price tr \<le> 0) = False" by simp
  from parts(1) have p1: "(trade_instrument_name tr = []) = False" by simp
  from parts(2) have p2: "(length (split (CHR ''-'') (trade_instrument_name tr)) < 4) = False"
    by simp
  from k0 have k0': "(k = 0) = False" by simp
  show ?thesis
    unfolding flow_step_def sk trade_notional_def
    apply (simp only: prod.case Let_def p1 p2 parts(3) pos' k0' tte if_False option.case
        w calculate_delta_simple_def sum.case)
    apply (rule exI, rule conjI, rule refl)
    apply (simp split: if_splits)
    done
qed



lemma map_of_dict_set: "map_of (dict_set d k v) k' = (if k' = k then Some v else map_of d k')"
  by (simp add: dict_set_def update_conv')

lemma case_dict_set_other:
  "k \<noteq> k' \<Longrightarrow>
   map_of (case xs of [] \<Rightarrow> d | b # bs \<Rightarrow> dict_set d k (f b)) k' = map_of d k'"
  by (cases xs) (simp_all add: map_of_dict_set)

lemma flow_levels_of_vwas:
  "map_of (flow_levels_of sf tv spot) ''VWAS''
     = (if sf \<noteq> [] \<and> 0 < tv
        then Some (sum_list (map (\<lambda>(k, data). k * total_volume data) sf) / tv)
        else None)"
proof (cases sf)
  case Nil
  then show ?thesis by (simp add: flow_levels_of_def)
next
  case (Cons x xs)
  have pain: "map_of (add_max_pain_flow s d) ''VWAS'' = map_of d ''VWAS''" for s d
    unfolding add_max_pain_flow_def Let_def by (rule case_dict_set_other) simp
  have calls: "map_of (add_call_flow_resistance s spot d) ''VWAS'' = map_of d ''VWAS''" for s d
    unfolding add_call_flow_resistance_def Let_def by (rule case_dict_set_other) simp
  have puts: "map_of (add_put_flow_support s spot d) ''VWAS'' = map_of d ''VWAS''" for s d
    unfolding add_put_flow_support_def Let_def by (rule case_dict_set_other) simp
  have hvs: "map_of (dict_set [] ''HVS'' h) ''VWAS'' = None" for h :: real
    by (simp add: map_of_dict_set)
  have vwas: "map_of (add_vwas s tv d) ''VWAS''
      = (if 0 < tv then Some (sum_list (map (\<lambda>(k, data). k * total_volume data) s) / tv)
         else map_of d ''VWAS'')" for s d
    by (simp add: add_vwas_def map_of_dict_set)
  show ?thesis
    by (simp add: flow_levels_of_def Cons Let_def vwas pain calls puts hvs)
qed



text \<open>The bound on the timestamps is needed. A trade stamped in the year 5138 passes
  every check of the loop, \<open>math.exp\<close> raises on it after the total has grown, and it
  enters no strike: of two trades of notional 100 each, at the strikes 100 and 110,
  the second stamped so, the level is \<open>100 * 100 / 200 = 50\<close>, where the weighted
  average of the two strikes is 105.\<close>

lemma vwas_far_future_trade:
  "map_of (fst (analyze_complete_options_flow (\<lambda>n. jan25 1 9) 0
     [sample_trade ''BTC-2JAN25-100-C'' 1 1 ''buy'',
      (sample_trade ''BTC-2JAN25-110-P'' 1 1 ''buy'')\<lparr>timestamp := 100000000000000\<rparr>] 100))
     ''VWAS'' = Some 50
   \<and> spec_vwas 100
     [sample_trade ''BTC-2JAN25-100-C'' 1 1 ''buy'',
      (sample_trade ''BTC-2JAN25-110-P'' 1 1 ''buy'')\<lparr>timestamp := 100000000000000\<rparr>] = 105"
proof -
  let ?A = "sample_trade ''BTC-2JAN25-100-C'' 1 1 ''buy''"
  let ?B = "(sample_trade ''BTC-2JAN25-110-P'' 1 1 ''buy'')\<lparr>timestamp := 100000000000000\<rparr>"
  let ?clk = "\<lambda>n::nat. jan25 1 9"
  have f100: "py_float ''100'' = Some 100"
    by (simp add: py_float_def strip_def is_space_def split_sign_def is_digit_def
        parse_exponent_def digits_val_def digit_val_def)
  have f110: "py_float ''110'' = Some 110"
    by (simp add: py_float_def strip_def is_space_def split_sign_def is_digit_def
        parse_exponent_def digits_val_def digit_val_def)
  have sA: "flow_strike ?A = Some 100"
    by (simp add: flow_strike_def sample_trade_def f100)
  have sB: "flow_strike ?B = Some 110"
    by (simp add: flow_strike_def sample_trade_def f110)
  have fields: "amount ?A = 1" "price ?A = 1" "timestamp ?A = 0"
    "amount ?B = 1" "price ?B = 1" "timestamp ?B = 100000000000000"
    by (simp_all add: sample_trade_def)
  have vA: "valid_flow_trade ?A" and kA: "strike_of ?A = 100"
    by (simp_all add: valid_flow_trade_def strike_of_def sA fields)
  have vB: "valid_flow_trade ?B" and kB: "strike_of ?B = 110"
    by (simp_all add: valid_flow_trade_def strike_of_def sB fields)
  have nA: "trade_notional 100 ?A = 100" and nB: "trade_notional 100 ?B = 100"
    by (simp_all add: trade_notional_def fields)
  have now: "timestamp_ms (jan25 1 9) = 1735722000000"
    by (simp add: timestamp_ms_def jan25_microseconds)
  have "math_exp (- ((timestamp_ms (?clk 0) - timestamp ?A) / (1000 * 60 * 60)) / 12)
      = Inr (exp (- ((timestamp_ms (?clk 0) - timestamp ?A) / (1000 * 60 * 60)) / 12))"
    by (rule time_weight_returns) (simp add: fields now)
  from flow_step_add [where clk = ?clk and t = 0 and spot = 100 and sf = "[]" and tv = 0
      and tr = ?A, OF vA _ this]
  obtain data where
    stepA: "flow_step 100 ?clk ?A ([], 0, 0) = (dict_set [] 100 data, 100, 1)"
    and data: "total_volume data = 100"
    by (auto simp: kA nA dict_get_def no_flow_def)
  have "math_exp (- ((timestamp_ms (?clk 1) - timestamp ?B) / (1000 * 60 * 60)) / 12)
      = Inl OverflowError"
    by (rule time_weight_raises) (simp add: fields now)
  from flow_step_raises [where clk = ?clk and t = 1 and spot = 100 and tr = ?B, OF vB this]
  have stepB: "flow_step 100 ?clk ?B (sf, tv, Suc 0) = (sf, tv + 100, 2)" for sf tv
    by (simp add: nB)
  have run: "fold (flow_step 100 ?clk) [?A, ?B] ([], 0, 0) = ([(100, data)], 200, 2)"
    by (simp add: stepA stepB dict_set_def)
  have code: "map_of (fst (analyze_complete_options_flow ?clk 0 [?A, ?B] 100)) ''VWAS'' = Some 50"
    unfolding analyze_complete_options_flow_def
    by (simp only: run list.simps if_False prod.case fst_conv flow_levels_of_vwas)
      (simp add: data)
  have spec: "spec_vwas 100 [?A, ?B] = 105"
    by (simp add: spec_vwas_def spec_strike_notional_def spec_total_notional_def
        vA vB kA kB nA nB)
  from code spec show ?thesis by simp
qed


subsection \<open>Instrument names\<close>

lemma split_no_sep: "c \<notin> set s \<Longrightarrow> split c s = [s]"
  by (induction s) auto

lemma split_append: "c \<notin> set a \<Longrightarrow> split c (a @ c # r) = a # split c r"
  by (induction a) auto

lemma digit_char_props:
  assumes "n < 10"
  shows "is_digit (digit_char n)" and "digit_val (digit_char n) = n"
    and "digit_char n \<noteq> CHR ''-''" and "digit_char n \<noteq> CHR ''0'' \<or> n = 0"
proof -
  from assms have "n \<in> {9, 8, 7, 6, 5} \<or> n \<in> {4, 3, 2, 1, 0}"
    by (simp add: insert_iff) arith
  then have "is_digit (digit_char n) \<and> digit_val (digit_char n) = n
      \<and> digit_char n \<noteq> CHR ''-'' \<and> (digit_char n \<noteq> CHR ''0'' \<or> n = 0)"
    by (auto simp: digit_char_def is_digit_def digit_val_def)
  then show "is_digit (digit_char n)" and "digit_val (digit_char n) = n"
    and "digit_char n \<noteq> CHR ''-''" and "digit_char n \<noteq> CHR ''0'' \<or> n = 0"
    by simp_all
qed

lemma is_digit_not_special:
  assumes "is_digit c"
  shows "c \<noteq> CHR ''_''" "c \<noteq> CHR ''-''" "c \<noteq> CHR ''+''" "c \<noteq> CHR ''.''" "\<not> is_space c"
  using assms by (auto simp: is_digit_def is_space_def)

lemma decimal_digits: "list_all is_digit (decimal n) \<and> decimal n \<noteq> []"
proof (induction n rule: decimal.induct)
  case (1 n)
  show ?case
  proof (cases "n < 10")
    case True
    then show ?thesis by (simp add: decimal.simps [of n] digit_char_props)
  next
    case False
    then have "list_all is_digit (decimal (n div 10))" using "1" by simp
    moreover have "is_digit (digit_char (n mod 10))" by (simp add: digit_char_props)
    ultimately show ?thesis
      using False by (simp add: decimal.simps [of n])
  qed
qed

lemma digits_val_snoc: "digits_val (xs @ [c]) = 10 * digits_val xs + digit_val c"
  by (simp add: digits_val_def)

lemma digits_val_decimal: "digits_val (decimal n) = n"
proof (induction n rule: decimal.induct)
  case (1 n)
  show ?case
  proof (cases "n < 10")
    case True
    then show ?thesis by (simp add: decimal.simps [of n] digits_val_def digit_char_props)
  next
    case False
    then have "digits_val (decimal (n div 10)) = n div 10" using "1" by simp
    then have "digits_val (decimal (n div 10) @ [digit_char (n mod 10)]) = n"
      by (simp add: digits_val_snoc digit_char_props)
    then show ?thesis
      using False by (simp add: decimal.simps [of n])
  qed
qed

lemma drop_underscores_digits:
  "list_all is_digit s \<Longrightarrow> prev \<noteq> CHR ''_'' \<Longrightarrow> drop_underscores prev s = Some s"
  by (induction s arbitrary: prev) (auto simp: is_digit_not_special)

lemma dropWhile_space_digits: "list_all is_digit s \<Longrightarrow> dropWhile is_space s = s"
  by (cases s) (auto simp: is_digit_not_special)

lemma strip_digits: "list_all is_digit s \<Longrightarrow> strip s = s"
proof -
  assume d: "list_all is_digit s"
  then have "list_all is_digit (rev s)" by (simp add: list_all_iff)
  then show ?thesis
    using d by (simp add: strip_def dropWhile_space_digits)
qed

lemma py_float_digits:
  assumes "list_all is_digit s" and "s \<noteq> []"
  shows "py_float s = Some (real (foldl (\<lambda>n c. 10 * n + digit_val c) 0 s))"
proof -
  from assms obtain c r where s: "s = c # r" by (cases s) auto
  with assms(1) have c: "is_digit c" by simp
  have sign: "split_sign s = (False, s)"
    using c by (simp add: split_sign_def s is_digit_not_special)
  have tw: "takeWhile is_digit s = s" "dropWhile is_digit s = []"
    using assms(1) by (simp_all add: list_all_iff)
  show ?thesis
    using assms(2)
    by (simp add: py_float_def drop_underscores_digits [OF assms(1)] strip_digits [OF assms(1)]
        sign tw parse_exponent_def digits_val_def)
qed

lemma py_float_decimal: "py_float (decimal k) = Some (real k)"
  using py_float_digits [of "decimal k"] decimal_digits [of k] digits_val_decimal [of k]
  by (simp add: digits_val_def)

lemma digits_val_two_digits: "n < 100 \<Longrightarrow> digits_val (two_digits n) = n"
proof -
  assume "n < 100"
  then have "n div 10 < 10" by simp
  then show ?thesis
    by (simp add: two_digits_def digits_val_def digit_char_props)
qed

lemma two_digits_digits:
  "n < 100 \<Longrightarrow> list_all is_digit (two_digits n) \<and> CHR ''-'' \<notin> set (two_digits n)"
proof -
  assume "n < 100"
  then have "n div 10 < 10" by simp
  then show ?thesis
    using digit_char_props(1,3) [of "n div 10"] digit_char_props(1,3) [of "n mod 10"]
    by (auto simp: two_digits_def)
qed

lemma parse_day_two_digits:
  assumes "1 \<le> d" and "d \<le> 31"
  shows "parse_day (two_digits (nat d) @ rest) = Some (d, rest)"
proof -
  from assms have n: "nat d < 100" by simp
  from two_digits_digits [OF n] have digs: "is_digit (digit_char (nat d div 10))"
    "is_digit (digit_char (nat d mod 10))"
    by (simp_all add: two_digits_def)
  have "digits_val [digit_char (nat d div 10), digit_char (nat d mod 10)] = nat d"
    using digits_val_two_digits [OF n] by (simp add: two_digits_def)
  then show ?thesis
    using assms digs by (simp add: parse_day_def two_digits_def Let_def)
qed

lemma parse_year_two_digits:
  assumes "1969 \<le> y" and "y \<le> 2068"
  shows "parse_year (two_digits (nat (y mod 100))) = Some y"
proof -
  have n: "nat (y mod 100) < 100" by simp
  have v: "int (digits_val (two_digits (nat (y mod 100)))) = y mod 100"
    by (simp add: digits_val_two_digits [OF n])
  have len: "length (two_digits (nat (y mod 100))) = 2"
    by (simp add: two_digits_def)
  have "(if y mod 100 \<le> 68 then y mod 100 + 2000 else y mod 100 + 1900) = y"
    using assms by presburger
  then show ?thesis
    using two_digits_digits [OF n] by (simp add: parse_year_def len v Let_def)
qed

lemma parse_month_names:
  assumes "1 \<le> m" and "m \<le> 12"
  shows "parse_month (month_names ! nat (m - 1) @ rest) = Some (m, rest)
       \<and> CHR ''-'' \<notin> set (month_names ! nat (m - 1))"
proof -
  from assms have "m = 1 \<or> m = 2 \<or> m = 3 \<or> m = 4 \<or> m = 5 \<or> m = 6
      \<or> m = 7 \<or> m = 8 \<or> m = 9 \<or> m = 10 \<or> m = 11 \<or> m = 12"
    by arith
  then show ?thesis
    by (elim disjE)
      (simp_all add: month_names_def parse_month_def lower_def month_abbr_def Let_def)
qed

lemma days_in_month_le: "days_in_month y m \<le> 31"
  by (simp add: days_in_month_def)

lemma strptime_canonical:
  assumes "1969 \<le> y" "y \<le> 2068" "1 \<le> m" "m \<le> 12" "1 \<le> d" "d \<le> days_in_month y m"
  shows "strptime (two_digits (nat d) @ month_names ! nat (m - 1) @ two_digits (nat (y mod 100)))
       = Some \<lparr>year = y, month = m, day = d, hour = 0, minute = 0, second = 0, microsecond = 0\<rparr>"
proof -
  from assms(6) days_in_month_le [of y m] have "d \<le> 31" by linarith
  from parse_day_two_digits [OF assms(5) this]
  have pd: "parse_day (two_digits (nat d) @ month_names ! nat (m - 1)
              @ two_digits (nat (y mod 100)))
          = Some (d, month_names ! nat (m - 1) @ two_digits (nat (y mod 100)))" .
  from parse_month_names [OF assms(3,4)]
  have pm: "parse_month (month_names ! nat (m - 1) @ two_digits (nat (y mod 100)))
          = Some (m, two_digits (nat (y mod 100)))"
    by blast
  show ?thesis
    using assms(6) by (simp add: strptime_def pd pm parse_year_two_digits [OF assms(1,2)])
qed

text \<open>
  C9, as stated: every valid name of the form CCY-DDMMMYY-STRIKE-{C|P} is regained from
  its parsed fields. The parser keeps the value of the strike, not its spelling: these
  two names, both of the form and both parsed successfully, have the same parsed fields,
  so no reconstruction returns both.
\<close>

theorem parse_forgets_spelling:
  "parse_instrument_name ''BTC-01JAN25-50000-C'' = parse_instrument_name ''BTC-01JAN25-50000.0-C''
   \<and> parse_instrument_name ''BTC-01JAN25-50000-C''
       = Some \<lparr>currency = ''BTC'',
               expiry_date = Some \<lparr>year = 2025, month = 1, day = 1, hour = 0, minute = 0,
                                   second = 0, microsecond = 0\<rparr>,
               strike = 50000, option_type = ''C'', is_call = True, is_put = False\<rparr>
   \<and> ''BTC-01JAN25-50000-C'' \<noteq> ''BTC-01JAN25-50000.0-C''"
proof -
  have f1: "py_float ''50000'' = Some 50000"
    by (simp add: py_float_def strip_def is_space_def split_sign_def is_digit_def
        parse_exponent_def digits_val_def digit_val_def)
  have f2: "py_float ''50000.0'' = Some 50000"
    by (simp add: py_float_def strip_def is_space_def split_sign_def is_digit_def
        parse_exponent_def digits_val_def digit_val_def)
  have d: "strptime ''01JAN25''
      = Some \<lparr>year = 2025, month = 1, day = 1, hour = 0, minute = 0, second = 0,
              microsecond = 0\<rparr>"
    by (simp add: strptime_def parse_day_def parse_month_def parse_year_def is_digit_def
        digits_val_def digit_val_def lower_def month_abbr_def days_in_month_def)
  show ?thesis
    by (simp add: parse_instrument_name_def f1 f2 d)
qed

text \<open>
  C9, amended: for every name in canonical spelling, that is a dash-free currency, a
  calendar date from 1969 to 2068 written with a two-digit day, the upper-case month
  abbreviation and a two-digit year, a strike written as a decimal integer of at most
  15 digits without sign or leading zeros, and the type C or P, parsing succeeds with
  exactly these fields, and the name built from the parsed fields is the original
  name. (A float holds every integer below \<open>10^15\<close> exactly.)
\<close>

theorem canonical_name_round_trip:
  assumes "canonical_fields ccy y m d k opt"
  shows "parse_instrument_name (instrument_name_of ccy y m d k opt)
           = Some \<lparr>currency = ccy,
                   expiry_date = Some \<lparr>year = y, month = m, day = d, hour = 0, minute = 0,
                                       second = 0, microsecond = 0\<rparr>,
                   strike = real k, option_type = opt,
                   is_call = (opt = ''C''), is_put = (opt = ''P'')\<rparr>
       \<and> (\<forall>p. parse_instrument_name (instrument_name_of ccy y m d k opt) = Some p
              \<longrightarrow> reconstruct p = Some (instrument_name_of ccy y m d k opt))"
proof -
  let ?date = "two_digits (nat d) @ month_names ! nat (m - 1) @ two_digits (nat (y mod 100))"
  let ?P = "\<lparr>currency = ccy,
             expiry_date = Some \<lparr>year = y, month = m, day = d, hour = 0, minute = 0,
                                 second = 0, microsecond = 0\<rparr>,
             strike = real k, option_type = opt,
             is_call = (opt = ''C''), is_put = (opt = ''P'')\<rparr>"
  from assms have ccy: "CHR ''-'' \<notin> set ccy"
    and range: "1969 \<le> y" "y \<le> 2068" "1 \<le> m" "m \<le> 12" "1 \<le> d" "d \<le> days_in_month y m"
    and opt: "opt = ''C'' \<or> opt = ''P''"
    by (simp_all add: canonical_fields_def)
  from range(6) days_in_month_le [of y m] have "nat d < 100" by linarith
  then have "CHR ''-'' \<notin> set (two_digits (nat d))"
    using two_digits_digits by blast
  moreover have "CHR ''-'' \<notin> set (two_digits (nat (y mod 100)))"
    using two_digits_digits [of "nat (y mod 100)"] by simp
  moreover have "CHR ''-'' \<notin> set (month_names ! nat (m - 1))"
    using parse_month_names [OF range(3,4)] by blast
  ultimately have date: "CHR ''-'' \<notin> set ?date" by simp
  have strike: "CHR ''-'' \<notin> set (decimal k)"
    using decimal_digits [of k] is_digit_not_special(2) by (auto simp: list_all_iff)
  from opt have o: "CHR ''-'' \<notin> set opt" by auto
  have "instrument_name_of ccy y m d k opt
      = ccy @ CHR ''-'' # (?date @ CHR ''-'' # (decimal k @ CHR ''-'' # opt))"
    by (simp add: instrument_name_of_def)
  then have parts: "split (CHR ''-'') (instrument_name_of ccy y m d k opt)
      = [ccy, ?date, decimal k, opt]"
    by (simp only: split_append [OF ccy] split_append [OF date] split_append [OF strike]
        split_no_sep [OF o])
  have parsed: "parse_instrument_name (instrument_name_of ccy y m d k opt) = Some ?P"
    by (simp add: parse_instrument_name_def parts py_float_decimal strptime_canonical [OF range])
  have "reconstruct ?P = Some (instrument_name_of ccy y m d k opt)"
    by (simp add: reconstruct_def)
  with parsed show ?thesis by simp
qed

theorem canonical_name_round_trip_witness:
  "canonical_fields ''BTC'' 2025 1 1 50000 ''C''
   \<and> instrument_name_of ''BTC'' 2025 1 1 50000 ''C'' = ''BTC-01JAN25-50000-C''
   \<and> reconstruct \<lparr>currency = ''BTC'',
         expiry_date = Some \<lparr>year = 2025, month = 1, day = 1, hour = 0, minute = 0,
                             second = 0, microsecond = 0\<rparr>,
         strike = 50000, option_type = ''C'', is_call = True, is_put = False\<rparr>
       = Some ''BTC-01JAN25-50000-C''"
proof -
  have c: "canonical_fields ''BTC'' 2025 1 1 50000 ''C''"
    by (simp add: canonical_fields_def days_in_month_def)
  have dec: "decimal 50000 = ''50000''"
    by (simp add: decimal.simps [of 50000] decimal.simps [of 5000] decimal.simps [of 500]
        decimal.simps [of 50] decimal.simps [of 5] digit_char_def)
  have n: "instrument_name_of ''BTC'' 2025 1 1 50000 ''C'' = ''BTC-01JAN25-50000-C''"
    by (simp add: instrument_name_of_def two_digits_def digit_char_def month_names_def dec)
  from canonical_name_round_trip [OF c]
  have "reconstruct \<lparr>currency = ''BTC'',
         expiry_date = Some \<lparr>year = 2025, month = 1, day = 1, hour = 0, minute = 0,
                             second = 0, microsecond = 0\<rparr>,
         strike = 50000, option_type = ''C'', is_call = True, is_put = False\<rparr>
       = Some (instrument_name_of ''BTC'' 2025 1 1 50000 ''C'')"
    by simp
  with c n show ?thesis by simp
qed

subsection \<open>The option-type field\<close>

lemma aggregate_open_interest_snoc:
  "aggregate_open_interest (xs @ [inst]) =
     (let calls = fst (aggregate_open_interest xs); puts = snd (aggregate_open_interest xs);
          k = strike inst; oi = open_interest inst
      in if oi \<le> 0 then (calls, puts)
         else if is_call inst then (dict_set calls k (dict_get calls k 0 + oi), puts)
         else (calls, dict_set puts k (dict_get puts k 0 + oi)))"
  by (simp add: aggregate_open_interest_def Let_def case_prod_beta)

text \<open>
  C10: a name with exactly four dash-separated parts, a strike \<open>float\<close> accepts and a
  date \<open>strptime\<close> accepts parses, whatever the fourth part is; the fourth part is
  stored as it stands and compared with "C" and "P" only. When such an instrument has
  positive open interest and its fourth part is not exactly "C", the aggregation adds
  its open interest to the put side at its strike and leaves the call side alone.
\<close>

theorem option_type_not_validated:
  assumes "split (CHR ''-'') nm = [ccy, expiry_str, strike_str, opt]"
    and "py_float strike_str = Some k"
    and "strptime expiry_str = Some d"
  shows "parse_instrument_name nm
           = Some \<lparr>currency = ccy, expiry_date = Some d, strike = k, option_type = opt,
                   is_call = (opt = ''C''), is_put = (opt = ''P'')\<rparr>
       \<and> (\<forall>p. parse_instrument_name nm = Some p \<and> opt \<noteq> ''C''
               \<and> summary_open_interest s = Some oi \<and> 0 < oi \<longrightarrow>
             aggregate_open_interest (earlier @ [enhance s p])
               = (fst (aggregate_open_interest earlier),
                  dict_set (snd (aggregate_open_interest earlier)) k
                    (dict_get (snd (aggregate_open_interest earlier)) k 0 + oi)))"
proof -
  have parsed: "parse_instrument_name nm
           = Some \<lparr>currency = ccy, expiry_date = Some d, strike = k, option_type = opt,
                   is_call = (opt = ''C''), is_put = (opt = ''P'')\<rparr>"
    using assms by (simp add: parse_instrument_name_def)
  have "aggregate_open_interest (earlier @ [enhance s p])
               = (fst (aggregate_open_interest earlier),
                  dict_set (snd (aggregate_open_interest earlier)) k
                    (dict_get (snd (aggregate_open_interest earlier)) k 0 + oi))"
    if "parse_instrument_name nm = Some p" and "opt \<noteq> ''C''"
      and "summary_open_interest s = Some oi" and "0 < oi" for p
  proof -
    from that(1) parsed have p: "p = \<lparr>currency = ccy, expiry_date = Some d, strike = k,
        option_type = opt, is_call = (opt = ''C''), is_put = (opt = ''P'')\<rparr>"
      by simp
    have "strike (enhance s p) = k" "open_interest (enhance s p) = oi"
      "\<not> is_call (enhance s p)"
      using that(2,3) by (simp_all add: enhance_def p)
    then show ?thesis
      using that(4) by (simp add: aggregate_open_interest_snoc Let_def)
  qed
  with parsed show ?thesis by blast
qed

theorem option_type_not_validated_witness:
  "split (CHR ''-'') ''BTC-01JAN25-50000-c'' = [''BTC'', ''01JAN25'', ''50000'', ''c'']
   \<and> py_float ''50000'' = Some 50000
   \<and> parse_instrument_name ''BTC-01JAN25-50000-c''
       = Some \<lparr>currency = ''BTC'',
               expiry_date = Some \<lparr>year = 2025, month = 1, day = 1, hour = 0, minute = 0,
                                   second = 0, microsecond = 0\<rparr>,
               strike = 50000, option_type = ''c'', is_call = False, is_put = False\<rparr>
   \<and> aggregate_open_interest
       [enhance \<lparr>summary_instrument_name = Some ''BTC-01JAN25-50000-c'',
                 summary_open_interest = Some 7, summary_volume = None,
                 summary_mark_iv = None\<rparr>
          \<lparr>currency = ''BTC'',
           expiry_date = Some \<lparr>year = 2025, month = 1, day = 1, hour = 0, minute = 0,
                               second = 0, microsecond = 0\<rparr>,
           strike = 50000, option_type = ''c'', is_call = False, is_put = False\<rparr>]
       = ([], [(50000, 7)])"
proof -
  let ?d = "\<lparr>year = 2025, month = 1, day = 1, hour = 0, minute = 0, second = 0,
             microsecond = 0\<rparr>"
  let ?s = "\<lparr>summary_instrument_name = Some ''BTC-01JAN25-50000-c'',
             summary_open_interest = Some (7::real), summary_volume = None,
             summary_mark_iv = None\<rparr>"
  let ?p = "\<lparr>currency = ''BTC'', expiry_date = Some ?d, strike = 50000, option_type = ''c'',
             is_call = False, is_put = False\<rparr>"
  have h1: "split (CHR ''-'') ''BTC-01JAN25-50000-c'' = [''BTC'', ''01JAN25'', ''50000'', ''c'']"
    by simp
  have h2: "py_float ''50000'' = Some 50000"
    by (simp add: py_float_def strip_def is_space_def split_sign_def is_digit_def
        parse_exponent_def digits_val_def digit_val_def)
  have h3: "strptime ''01JAN25'' = Some ?d"
    by (simp add: strptime_def parse_day_def parse_month_def parse_year_def is_digit_def
        digits_val_def digit_val_def lower_def month_abbr_def days_in_month_def)
  from option_type_not_validated [OF h1 h2 h3, of ?s 7 "[]"]
  have parsed: "parse_instrument_name ''BTC-01JAN25-50000-c'' = Some ?p"
    and added: "aggregate_open_interest ([] @ [enhance ?s ?p])
       = (fst (aggregate_open_interest []),
          dict_set (snd (aggregate_open_interest [])) 50000
            (dict_get (snd (aggregate_open_interest [])) 50000 0 + 7))"
    by simp_all
  from added have "aggregate_open_interest [enhance ?s ?p] = ([], [(50000, 7)])"
    by (simp add: aggregate_open_interest_def dict_set_def dict_get_def)
  with h1 h2 parsed show ?thesis by blast
qed

end
